theory Spec2Isabelle
  imports Complex_Main "HOL-Library.Word" "HOL-Library.Monad_Syntax"
begin

section \<open>Data model of \<open>lcz_lwm2m_ble_sensor.c\<close>\<close>

text \<open>
  The module keeps one global structure \<open>lbs\<close>: the capacity-full flag
  \<open>table_full\<close>, the per-device table \<open>table[MAX_INSTANCES]\<close> and the optional
  statistics counters. Everything else it touches is an external collaborator (the
  gateway object directory, the measurement sinks, the advertisement parser, the LED).

  Conventions of the embedding:
  \<^item> C \<open>int\<close> values (indices, return codes, product ids) are \<open>int\<close>; the code only
    compares and stores them, so no overflow can arise. \<open>uint8_t\<close>, \<open>uint16_t\<close> and
    \<open>uint32_t\<close> are words of that width.
  \<^item> A \<open>double\<close> is a \<open>real\<close>: the model computes the exact quotient whose nearest
    \<open>double\<close> the C division returns. A \<open>float\<close> payload is the \<open>real\<close> it denotes.
  \<^item> A pointer that may be \<open>NULL\<close> is an \<open>option\<close>.
  \<^item> Every function that indexes \<open>lbs.table\<close> returns an \<open>option\<close>: \<open>None\<close> stands
    for an access outside the array (undefined behaviour in C).
  \<^item> Log statements are not modelled, except for the directory reads the debug log of
    \<open>get_index\<close> performs to build its arguments.
\<close>

type_synonym bt_addr_le_t = "8 word \<times> 8 word list"

record lwm2m_ble_sensor =
  last_record_type :: "8 word"
  last_event_id :: "16 word"
  product_id :: int

datatype stat_field =
    ads | legacy_ads | rsp_ads | coded_ads | accepted_ads | indexed_ads
  | processed_ads | set_events | set_errors | name_updates

text \<open>
  The event and scan-response structures are declared in headers outside this file.
  The model keeps the members the code reads: \<open>recordType\<close>, \<open>id\<close> and the payload
  union members \<open>u16\<close>, \<open>s32\<close> and \<open>f\<close> of an event (the member \<open>s32\<close> is an
  \<open>int32_t\<close>, kept as its 32 bits: \<open>sint\<close> is its value), and \<open>productId\<close> of a
  scan response. The union members are kept as separate views of the payload.
\<close>

record SensorEventData =
  u16 :: "16 word"
  s32 :: "32 word"
  f :: real

record LczSensorAdEvent =
  recordType :: "8 word"
  id' :: "16 word"
  data :: SensorEventData

record LczSensorRsp =
  productId :: "16 word"

subsection \<open>Build configuration and header constants\<close>

text \<open>
  The Kconfig options and the constants of the sensor headers are not part of this
  file; they are parameters of the model. The event codes are the \<open>int\<close> values of
  the enumeration constants the two \<open>switch\<close> statements name.
\<close>

record config =
  MAX_INSTANCES :: nat
  LIFETIME :: int
  CONFIG_LCZ_LWM2M_TEMPERATURE :: bool
  CONFIG_LCZ_LWM2M_BATTERY :: bool
  CONFIG_LCZ_LWM2M_CURRENT :: bool
  CONFIG_LCZ_LWM2M_PRESSURE :: bool
  CONFIG_LCZ_LWM2M_FILL_LEVEL :: bool
  CONFIG_LCZ_LWM2M_BLE_SENSOR_LED :: bool
  CONFIG_LCZ_LWM2M_BLE_SENSOR_STATS :: bool
  CONFIG_LCZ_LWM2M_BLE_SENSOR_LOG_LEVEL_DBG :: bool
  CONFIG_LCZ_LWM2M_BLE_CREATE_LOG_VERBOSE :: bool
  BT510_PRODUCT_ID :: int
  BT6XX_PRODUCT_ID :: int
  INVALID_PRODUCT_ID :: int
  SENSOR_EVENT_TEMPERATURE :: int
  SENSOR_EVENT_BATTERY_GOOD :: int
  SENSOR_EVENT_BATTERY_BAD :: int
  SENSOR_EVENT_TEMPERATURE_1 :: int
  SENSOR_EVENT_TEMPERATURE_2 :: int
  SENSOR_EVENT_TEMPERATURE_3 :: int
  SENSOR_EVENT_TEMPERATURE_4 :: int
  SENSOR_EVENT_CURRENT_1 :: int
  SENSOR_EVENT_CURRENT_2 :: int
  SENSOR_EVENT_CURRENT_3 :: int
  SENSOR_EVENT_CURRENT_4 :: int
  SENSOR_EVENT_PRESSURE_1 :: int
  SENSOR_EVENT_PRESSURE_2 :: int
  SENSOR_EVENT_ULTRASONIC_1 :: int

definition EPERM :: int where
  "EPERM = 1"

definition ENOMEM :: int where
  "ENOMEM = 12"

text \<open>
  The case labels of a \<open>switch\<close> are pairwise distinct in any program the compiler
  accepts. The model writes each \<open>switch\<close> as a chain of tests in the order of the
  source; the two agree on every configuration that satisfies this predicate.
\<close>

definition switch_labels_distinct :: "config \<Rightarrow> bool" where
  "switch_labels_distinct C \<longleftrightarrow>
     distinct
       [SENSOR_EVENT_TEMPERATURE C, SENSOR_EVENT_BATTERY_GOOD C, SENSOR_EVENT_BATTERY_BAD C,
        SENSOR_EVENT_TEMPERATURE_1 C, SENSOR_EVENT_TEMPERATURE_2 C,
        SENSOR_EVENT_TEMPERATURE_3 C, SENSOR_EVENT_TEMPERATURE_4 C,
        SENSOR_EVENT_CURRENT_1 C, SENSOR_EVENT_CURRENT_2 C,
        SENSOR_EVENT_CURRENT_3 C, SENSOR_EVENT_CURRENT_4 C,
        SENSOR_EVENT_PRESSURE_1 C, SENSOR_EVENT_PRESSURE_2 C, SENSOR_EVENT_ULTRASONIC_1 C]
     \<and> BT510_PRODUCT_ID C \<noteq> BT6XX_PRODUCT_ID C"

subsection \<open>External collaborators\<close>

text \<open>
  Every call that leaves the module is a value of type \<open>call\<close>. The collaborators
  share one state \<open>'w\<close>; \<open>respond\<close> gives the return value of a call and the state
  after it, and is otherwise arbitrary. The module's state records the calls it made,
  oldest first, so that a theorem can say which calls an operation performs.
\<close>

datatype call =
    lcz_lwm2m_gw_obj_lookup_ble bt_addr_le_t
  | lcz_lwm2m_gw_obj_create bt_addr_le_t
  | lcz_lwm2m_gw_obj_get_instance int
  | lcz_lwm2m_gw_obj_get_endpoint_name int
  | lcz_lwm2m_gw_obj_set_lifetime int int
  | lcz_lwm2m_gw_obj_inst_created int
  | lcz_lwm2m_gw_obj_set_endpoint_name int "8 word list"
  | lcz_lwm2m_managed_temperature_set int "16 word" real
  | lcz_lwm2m_managed_battery_set int "16 word" real "8 word"
  | lcz_lwm2m_managed_current_set int "16 word" real
  | lcz_lwm2m_managed_pressure_set int "16 word" real
  | lcz_lwm2m_managed_fill_level_set int "16 word" real
  | lcz_led_blink

text \<open>
  An \<open>AdHandle_t\<close> is the payload it points to (\<open>None\<close> for a \<open>NULL\<close> payload
  pointer; its size is the length). The casts of a payload pointer to a structure
  pointer are the three \<open>as_\<close> functions.
\<close>

type_synonym AdHandle_t = "8 word list option"

record 'w extern =
  respond :: "'w \<Rightarrow> call \<Rightarrow> int \<times> 'w"
  lcz_lwm2m_battery_get_level_bt510 :: "real \<Rightarrow> 8 word"
  lcz_lwm2m_battery_get_level_bt610 :: "real \<Rightarrow> 8 word"
  AdFind_Type :: "8 word list \<Rightarrow> AdHandle_t"
  AdFind_Name :: "8 word list \<Rightarrow> AdHandle_t"
  lcz_sensor_adv_match_1m :: "AdHandle_t \<Rightarrow> bool"
  lcz_sensor_adv_match_coded :: "AdHandle_t \<Rightarrow> bool"
  lcz_sensor_adv_match_rsp :: "AdHandle_t \<Rightarrow> bool"
  as_LczSensorAdEvent :: "8 word list \<Rightarrow> LczSensorAdEvent"
  as_LczSensorAdCoded :: "8 word list \<Rightarrow> LczSensorAdEvent \<times> LczSensorRsp"
  as_LczSensorRspWithHeader :: "8 word list \<Rightarrow> LczSensorRsp"

subsection \<open>The module state\<close>

record 'w lbs =
  table_full :: bool
  table :: "lwm2m_ble_sensor list"
  stats :: "stat_field \<Rightarrow> 32 word"
  world :: 'w
  calls :: "call list"

definition ext_call :: "'w extern \<Rightarrow> call \<Rightarrow> 'w lbs \<Rightarrow> int \<times> 'w lbs" where
  "ext_call X c s =
     (let (r, w) = respond X (world s) c
      in (r, s\<lparr>world := w, calls := calls s @ [c]\<rparr>))"

definition INCR_STAT :: "config \<Rightarrow> stat_field \<Rightarrow> 'w lbs \<Rightarrow> 'w lbs" where
  "INCR_STAT C field s =
     (if CONFIG_LCZ_LWM2M_BLE_SENSOR_STATS C
      then s\<lparr>stats := (stats s)(field := stats s field + 1)\<rparr>
      else s)"

text \<open>Reading and writing \<open>lbs.table[idx]\<close>; \<open>None\<close> outside the array.\<close>

definition table_at :: "'w lbs \<Rightarrow> int \<Rightarrow> lwm2m_ble_sensor option" where
  "table_at s idx =
     (if 0 \<le> idx \<and> nat idx < length (table s) then Some (table s ! nat idx) else None)"

definition table_set ::
  "'w lbs \<Rightarrow> int \<Rightarrow> (lwm2m_ble_sensor \<Rightarrow> lwm2m_ble_sensor) \<Rightarrow> 'w lbs option" where
  "table_set s idx upd =
     (if 0 \<le> idx \<and> nat idx < length (table s)
      then Some (s\<lparr>table := (table s)[nat idx := upd (table s ! nat idx)]\<rparr>)
      else None)"

section \<open>The functions of the module\<close>

definition valid_index :: "config \<Rightarrow> int \<Rightarrow> bool" where
  "valid_index C idx \<longleftrightarrow> idx \<ge> 0 \<and> idx < int (MAX_INSTANCES C)"

text \<open>
  The debug log of \<open>get_index\<close> evaluates \<open>lcz_lwm2m_gw_obj_get_instance(idx)\<close> and
  \<open>get_name(idx)\<close> (a read of the endpoint name) as its arguments, when the module is
  built at debug log level. C leaves the order of the two reads open; the model takes
  them left to right. No theorem below depends on that order.
\<close>

definition log_create :: "config \<Rightarrow> 'w extern \<Rightarrow> int \<Rightarrow> 'w lbs \<Rightarrow> 'w lbs" where
  "log_create C X idx s =
     (if CONFIG_LCZ_LWM2M_BLE_SENSOR_LOG_LEVEL_DBG C
      then snd (ext_call X (lcz_lwm2m_gw_obj_get_endpoint_name idx)
                 (snd (ext_call X (lcz_lwm2m_gw_obj_get_instance idx) s)))
      else s)"

definition get_index ::
  "config \<Rightarrow> 'w extern \<Rightarrow> bt_addr_le_t \<Rightarrow> bool \<Rightarrow> 'w lbs \<Rightarrow> int \<times> 'w lbs" where
  "get_index C X addr add s =
     (let (idx, s) = ext_call X (lcz_lwm2m_gw_obj_lookup_ble addr) s;
          (idx, s) =
            (if \<not> valid_index C idx \<and> add \<and> \<not> table_full s then
               let (idx, s) = ext_call X (lcz_lwm2m_gw_obj_create addr) s;
                   s = (if idx \<noteq> - EPERM \<or> CONFIG_LCZ_LWM2M_BLE_CREATE_LOG_VERBOSE C
                        then log_create C X idx s else s);
                   s = (if idx = - ENOMEM then s\<lparr>table_full := True\<rparr> else s)
               in (idx, s)
             else (idx, s))
      in if idx \<ge> int (MAX_INSTANCES C) then (- EPERM, s) else (idx, s))"

definition ad_discard :: "config \<Rightarrow> LczSensorAdEvent \<Rightarrow> bool" where
  "ad_discard C p =
     (let t = uint (recordType p) in
      if t = SENSOR_EVENT_TEMPERATURE C then \<not> CONFIG_LCZ_LWM2M_TEMPERATURE C
      else if t = SENSOR_EVENT_BATTERY_GOOD C \<or> t = SENSOR_EVENT_BATTERY_BAD C
        then \<not> CONFIG_LCZ_LWM2M_BATTERY C
      else if t = SENSOR_EVENT_TEMPERATURE_1 C \<or> t = SENSOR_EVENT_TEMPERATURE_2 C
              \<or> t = SENSOR_EVENT_TEMPERATURE_3 C \<or> t = SENSOR_EVENT_TEMPERATURE_4 C
        then \<not> CONFIG_LCZ_LWM2M_TEMPERATURE C
      else if t = SENSOR_EVENT_CURRENT_1 C \<or> t = SENSOR_EVENT_CURRENT_2 C
              \<or> t = SENSOR_EVENT_CURRENT_3 C \<or> t = SENSOR_EVENT_CURRENT_4 C
        then \<not> CONFIG_LCZ_LWM2M_CURRENT C
      else if t = SENSOR_EVENT_PRESSURE_1 C \<or> t = SENSOR_EVENT_PRESSURE_2 C
        then \<not> CONFIG_LCZ_LWM2M_PRESSURE C
      else if t = SENSOR_EVENT_ULTRASONIC_1 C
        then \<not> CONFIG_LCZ_LWM2M_FILL_LEVEL C
      else True)"

text \<open>
  \<open>ad_process\<close>: the conversion selected by the record type, one sink call, then the
  counters. \<open>r\<close> starts as \<open>-EPERM\<close> and is the sink's return value when a sink is
  called. The battery case reads \<open>lbs.table[idx].product_id\<close>.
\<close>

definition battery_convert ::
  "config \<Rightarrow> 'w extern \<Rightarrow> int \<Rightarrow> LczSensorAdEvent \<Rightarrow> real \<times> 8 word" where
  "battery_convert C X pid p =
     (if pid = BT510_PRODUCT_ID C then
        (let d = real (unat (ucast (u16 (data p)) :: 32 word)) / 1000
         in (d, lcz_lwm2m_battery_get_level_bt510 X d))
      else if pid = BT6XX_PRODUCT_ID C then
        (let d = real (unat (s32 (data p))) / 1000
         in (d, lcz_lwm2m_battery_get_level_bt610 X d))
      else (0, 0))"

definition ad_process ::
  "config \<Rightarrow> 'w extern \<Rightarrow> int \<Rightarrow> LczSensorAdEvent \<Rightarrow> 8 word \<Rightarrow> 'w lbs \<Rightarrow> 'w lbs option" where
  "ad_process C X idx p rssi s =
     (let t = uint (recordType p) in
      do {
        (r, s) \<leftarrow>
          (if t = SENSOR_EVENT_TEMPERATURE C then
             (if CONFIG_LCZ_LWM2M_TEMPERATURE C then
                Some (ext_call X (lcz_lwm2m_managed_temperature_set idx 0
                        (real_of_int (sint (u16 (data p))) / 100)) s)
              else Some (- EPERM, s))
           else if t = SENSOR_EVENT_TEMPERATURE_1 C \<or> t = SENSOR_EVENT_TEMPERATURE_2 C
                   \<or> t = SENSOR_EVENT_TEMPERATURE_3 C \<or> t = SENSOR_EVENT_TEMPERATURE_4 C then
             (if CONFIG_LCZ_LWM2M_TEMPERATURE C then
                Some (ext_call X (lcz_lwm2m_managed_temperature_set idx
                        (word_of_int (t - SENSOR_EVENT_TEMPERATURE_1 C)) (f (data p))) s)
              else Some (- EPERM, s))
           else if t = SENSOR_EVENT_BATTERY_GOOD C \<or> t = SENSOR_EVENT_BATTERY_BAD C then
             (if CONFIG_LCZ_LWM2M_BATTERY C then
                do {
                  slot \<leftarrow> table_at s idx;
                  let (d, percentage) = battery_convert C X (product_id slot) p;
                  Some (ext_call X (lcz_lwm2m_managed_battery_set idx 0 d percentage) s)
                }
              else Some (- EPERM, s))
           else if t = SENSOR_EVENT_CURRENT_1 C \<or> t = SENSOR_EVENT_CURRENT_2 C
                   \<or> t = SENSOR_EVENT_CURRENT_3 C \<or> t = SENSOR_EVENT_CURRENT_4 C then
             (if CONFIG_LCZ_LWM2M_CURRENT C then
                Some (ext_call X (lcz_lwm2m_managed_current_set idx
                        (word_of_int (t - SENSOR_EVENT_CURRENT_1 C)) (f (data p))) s)
              else Some (- EPERM, s))
           else if t = SENSOR_EVENT_PRESSURE_1 C \<or> t = SENSOR_EVENT_PRESSURE_2 C then
             (if CONFIG_LCZ_LWM2M_PRESSURE C then
                Some (ext_call X (lcz_lwm2m_managed_pressure_set idx
                        (word_of_int (t - SENSOR_EVENT_PRESSURE_1 C)) (f (data p))) s)
              else Some (- EPERM, s))
           else if t = SENSOR_EVENT_ULTRASONIC_1 C then
             (if CONFIG_LCZ_LWM2M_FILL_LEVEL C then
                Some (ext_call X (lcz_lwm2m_managed_fill_level_set idx 0 (f (data p) / 10)) s)
              else Some (- EPERM, s))
           else Some (- EPERM, s));
        let s = INCR_STAT C processed_ads s;
        Some (if r = 0 then INCR_STAT C set_events s else INCR_STAT C set_errors s)
      })"

text \<open>
  \<open>ad_filter\<close>: the \<open>do { ... } while (0)\<close> block with its \<open>break\<close>s is a chain of
  early returns of the current \<open>idx\<close>. The duplicate test reads the table only when
  the event id is not zero, as the short-circuit \<open>&&\<close> does.
\<close>

definition ad_filter ::
  "config \<Rightarrow> 'w extern \<Rightarrow> bt_addr_le_t \<Rightarrow> LczSensorAdEvent option \<Rightarrow> 8 word \<Rightarrow> 'w lbs
     \<Rightarrow> (int \<times> 'w lbs) option" where
  "ad_filter C X addr p_opt rssi s =
     (case p_opt of
        None \<Rightarrow> Some (- EPERM, s)
      | Some p \<Rightarrow>
          if ad_discard C p then Some (- EPERM, s)
          else
            let s = INCR_STAT C accepted_ads s;
                (idx, s) = get_index C X addr True s
            in if \<not> valid_index C idx then Some (idx, s)
               else do {
                 let s = INCR_STAT C indexed_ads s;
                 dup \<leftarrow>
                   (if id' p \<noteq> 0 then
                      do {
                        slot \<leftarrow> table_at s idx;
                        Some (id' p = last_event_id slot \<and> recordType p = last_record_type slot)
                      }
                    else Some False);
                 if dup then Some (idx, s)
                 else do {
                   s \<leftarrow> table_set s idx (\<lambda>slot. slot\<lparr>last_event_id := id' p\<rparr>);
                   s \<leftarrow> table_set s idx (\<lambda>slot. slot\<lparr>last_record_type := recordType p\<rparr>);
                   let s = (if CONFIG_LCZ_LWM2M_BLE_SENSOR_LED C
                            then snd (ext_call X lcz_led_blink s) else s);
                   s \<leftarrow> ad_process C X idx p rssi s;
                   let (r, s) = ext_call X (lcz_lwm2m_gw_obj_set_lifetime idx (LIFETIME C)) s;
                   Some (idx, s)
                 }
               })"

definition rsp_handler ::
  "config \<Rightarrow> 'w extern \<Rightarrow> bt_addr_le_t \<Rightarrow> LczSensorRsp option \<Rightarrow> 'w lbs
     \<Rightarrow> (int \<times> 'w lbs) option" where
  "rsp_handler C X addr p_opt s =
     (case p_opt of
        None \<Rightarrow> Some (- EPERM, s)
      | Some p \<Rightarrow>
          let (idx, s) = get_index C X addr False s
          in if idx \<ge> 0 then
               do {
                 s \<leftarrow> table_set s idx (\<lambda>slot. slot\<lparr>product_id := uint (productId p)\<rparr>);
                 Some (idx, s)
               }
             else Some (idx, s))"

definition name_handler :: "config \<Rightarrow> 'w extern \<Rightarrow> int \<Rightarrow> 8 word list \<Rightarrow> 'w lbs \<Rightarrow> 'w lbs" where
  "name_handler C X idx ad s =
     (if \<not> valid_index C idx then s
      else
        case AdFind_Name X ad of
          None \<Rightarrow> s
        | Some name \<Rightarrow>
            let (created, s) = ext_call X (lcz_lwm2m_gw_obj_inst_created idx) s
            in if created \<noteq> 0 then s
               else
                 let (r, s) = ext_call X (lcz_lwm2m_gw_obj_set_endpoint_name idx name) s
                 in if r = 0 then INCR_STAT C name_updates s else s)"

definition gw_obj_removed :: "config \<Rightarrow> int \<Rightarrow> 'w lbs \<Rightarrow> (int \<times> 'w lbs) option" where
  "gw_obj_removed C idx s =
     (if valid_index C idx then
        do {
          let s = s\<lparr>table_full := False\<rparr>;
          s \<leftarrow> table_set s idx (\<lambda>slot. slot\<lparr>product_id := INVALID_PRODUCT_ID C\<rparr>);
          Some (0, s)
        }
      else Some (0, s))"

text \<open>
  \<open>ad_handler\<close>: the three shapes are tested in the order of the source. A matched
  coded or scan-response frame whose payload pointer is \<open>NULL\<close> would make the code
  form a member address from a null pointer; the model gives \<open>None\<close> there.
\<close>

definition ad_handler ::
  "config \<Rightarrow> 'w extern \<Rightarrow> bt_addr_le_t \<Rightarrow> 8 word \<Rightarrow> 8 word \<Rightarrow> 8 word list \<Rightarrow> 'w lbs
     \<Rightarrow> 'w lbs option" where
  "ad_handler C X addr rssi adv_type ad s =
     (let s = INCR_STAT C ads s;
          handle = AdFind_Type X ad
      in if lcz_sensor_adv_match_1m X handle then
           do {
             (idx, s) \<leftarrow> ad_filter C X addr (map_option (as_LczSensorAdEvent X) handle) rssi s;
             Some (INCR_STAT C legacy_ads s)
           }
         else if lcz_sensor_adv_match_coded X handle then
           (case handle of
              None \<Rightarrow> None
            | Some payload \<Rightarrow>
                do {
                  let s = INCR_STAT C coded_ads s;
                  let (coded_ad, coded_rsp) = as_LczSensorAdCoded X payload;
                  (idx, s) \<leftarrow> ad_filter C X addr (Some coded_ad) rssi s;
                  (idx, s) \<leftarrow> rsp_handler C X addr (Some coded_rsp) s;
                  Some (name_handler C X idx ad s)
                })
         else if lcz_sensor_adv_match_rsp X handle then
           (case handle of
              None \<Rightarrow> None
            | Some payload \<Rightarrow>
                do {
                  let s = INCR_STAT C rsp_ads s;
                  (idx, s) \<leftarrow> rsp_handler C X addr (Some (as_LczSensorRspWithHeader X payload)) s;
                  Some (name_handler C X idx ad s)
                })
         else Some s)"

section \<open>Observations on the call log, and runs of the event path\<close>

fun is_create :: "call \<Rightarrow> bool" where
  "is_create (lcz_lwm2m_gw_obj_create a) = True"
| "is_create _ = False"

fun is_lookup :: "call \<Rightarrow> bool" where
  "is_lookup (lcz_lwm2m_gw_obj_lookup_ble a) = True"
| "is_lookup _ = False"

text \<open>
  \<open>events_only C X s s'\<close>: the state \<open>s'\<close> is reached from \<open>s\<close> by any number of
  event-filter and name-correlator runs, with no scan-response correlation and no
  removal notification in between.
\<close>

inductive events_only :: "config \<Rightarrow> 'w extern \<Rightarrow> 'w lbs \<Rightarrow> 'w lbs \<Rightarrow> bool"
  for C :: config and X :: "'w extern" where
  events_none: "events_only C X s s"
| events_filter:
    "events_only C X s s1 \<Longrightarrow> ad_filter C X addr p rssi s1 = Some (idx, s2)
       \<Longrightarrow> events_only C X s s2"
| events_name:
    "events_only C X s s1 \<Longrightarrow> events_only C X s (name_handler C X idx ad s1)"

section \<open>A reference configuration and directory\<close>

text \<open>
  A small, fully concrete instance of the parameters, on which the theorems below are
  evaluated: two table slots, every measurement category but pressure enabled, and a
  directory that keeps one address per slot.
\<close>

definition demo_config :: config where
  "demo_config =
     \<lparr>MAX_INSTANCES = 2, LIFETIME = 3600,
      CONFIG_LCZ_LWM2M_TEMPERATURE = True, CONFIG_LCZ_LWM2M_BATTERY = True,
      CONFIG_LCZ_LWM2M_CURRENT = True, CONFIG_LCZ_LWM2M_PRESSURE = False,
      CONFIG_LCZ_LWM2M_FILL_LEVEL = True, CONFIG_LCZ_LWM2M_BLE_SENSOR_LED = True,
      CONFIG_LCZ_LWM2M_BLE_SENSOR_STATS = True,
      CONFIG_LCZ_LWM2M_BLE_SENSOR_LOG_LEVEL_DBG = False,
      CONFIG_LCZ_LWM2M_BLE_CREATE_LOG_VERBOSE = False,
      BT510_PRODUCT_ID = 0, BT6XX_PRODUCT_ID = 1, INVALID_PRODUCT_ID = 65535,
      SENSOR_EVENT_TEMPERATURE = 1, SENSOR_EVENT_BATTERY_GOOD = 12,
      SENSOR_EVENT_BATTERY_BAD = 16,
      SENSOR_EVENT_TEMPERATURE_1 = 20, SENSOR_EVENT_TEMPERATURE_2 = 21,
      SENSOR_EVENT_TEMPERATURE_3 = 22, SENSOR_EVENT_TEMPERATURE_4 = 23,
      SENSOR_EVENT_CURRENT_1 = 24, SENSOR_EVENT_CURRENT_2 = 25,
      SENSOR_EVENT_CURRENT_3 = 26, SENSOR_EVENT_CURRENT_4 = 27,
      SENSOR_EVENT_PRESSURE_1 = 28, SENSOR_EVENT_PRESSURE_2 = 29,
      SENSOR_EVENT_ULTRASONIC_1 = 30\<rparr>"

text \<open>
  Modelled from the spec: the device directory is a separate module; this is the
  interface of section 6 of the specification (lookup, create with the outcomes
  permission denied and no capacity, the instance-created query, set endpoint name)
  over a list of slots, a list of blocked addresses and the list of indices whose
  instance is created. Every other call succeeds and changes nothing. The theorems
  are stated for an arbitrary \<open>extern\<close>; this directory only instantiates them.
\<close>

record gateway =
  gw_devices :: "bt_addr_le_t option list"
  gw_blocked :: "bt_addr_le_t list"
  gw_created :: "int list"

fun gw_find :: "'a \<Rightarrow> 'a list \<Rightarrow> nat \<Rightarrow> nat option" where
  "gw_find x [] n = None"
| "gw_find x (y # ys) n = (if y = x then Some n else gw_find x ys (Suc n))"

fun gateway_respond :: "gateway \<Rightarrow> call \<Rightarrow> int \<times> gateway" where
  "gateway_respond g (lcz_lwm2m_gw_obj_lookup_ble a) =
     (case gw_find (Some a) (gw_devices g) 0 of
        None \<Rightarrow> (- 2, g)
      | Some i \<Rightarrow> (int i, g))"
| "gateway_respond g (lcz_lwm2m_gw_obj_create a) =
     (if a \<in> set (gw_blocked g) then (- EPERM, g)
      else
        case gw_find None (gw_devices g) 0 of
          None \<Rightarrow> (- ENOMEM, g)
        | Some i \<Rightarrow> (int i, g\<lparr>gw_devices := (gw_devices g)[i := Some a]\<rparr>))"
| "gateway_respond g (lcz_lwm2m_gw_obj_inst_created i) =
     (if i \<in> set (gw_created g) then 1 else 0, g)"
| "gateway_respond g (lcz_lwm2m_gw_obj_set_endpoint_name i name) =
     (0, g\<lparr>gw_created := i # gw_created g\<rparr>)"
| "gateway_respond g c = (0, g)"

text \<open>
  The reference parser: the first byte of a frame selects the shape (1, 2 or 3), the
  second byte is the record type, the third the event id, the fourth the payload and
  the fifth the product id; the bytes after the fifth are the name.
\<close>

fun demo_event :: "8 word list \<Rightarrow> LczSensorAdEvent" where
  "demo_event (b0 # b1 # b2 # b3 # bs) =
     \<lparr>recordType = b1, id' = ucast b2,
      data = \<lparr>u16 = ucast b3, s32 = ucast b3, f = real (unat b3)\<rparr>\<rparr>"
| "demo_event bs = \<lparr>recordType = 0, id' = 0, data = \<lparr>u16 = 0, s32 = 0, f = 0\<rparr>\<rparr>"

fun demo_rsp :: "8 word list \<Rightarrow> LczSensorRsp" where
  "demo_rsp (b0 # b1 # b2 # b3 # b4 # bs) = \<lparr>productId = ucast b4\<rparr>"
| "demo_rsp bs = \<lparr>productId = 0\<rparr>"

definition demo_extern :: "gateway extern" where
  "demo_extern =
     \<lparr>respond = gateway_respond,
      lcz_lwm2m_battery_get_level_bt510 = (\<lambda>v. if 3 \<le> v then 100 else 0),
      lcz_lwm2m_battery_get_level_bt610 = (\<lambda>v. if 3 \<le> v then 90 else 0),
      AdFind_Type = (\<lambda>ad. if ad = [] then None else Some ad),
      AdFind_Name = (\<lambda>ad. if length ad \<le> 5 then None else Some (drop 5 ad)),
      lcz_sensor_adv_match_1m = (\<lambda>h. map_option hd h = Some 1),
      lcz_sensor_adv_match_coded = (\<lambda>h. map_option hd h = Some 2),
      lcz_sensor_adv_match_rsp = (\<lambda>h. map_option hd h = Some 3),
      as_LczSensorAdEvent = demo_event,
      as_LczSensorAdCoded = (\<lambda>b. (demo_event b, demo_rsp b)),
      as_LczSensorRspWithHeader = demo_rsp\<rparr>"

definition addr_A :: bt_addr_le_t where
  "addr_A = (0, [1, 2, 3, 4, 5, 6])"

definition addr_B :: bt_addr_le_t where
  "addr_B = (1, [6, 5, 4, 3, 2, 1])"

text \<open>
  The reference state: the device \<open>addr_A\<close> is known at index 0 and has reported
  event 7 of type 1; slot 1 is free; the product ids are still unknown.
\<close>

definition demo_state :: "gateway lbs" where
  "demo_state =
     \<lparr>table_full = False,
      table =
        [\<lparr>last_record_type = 1, last_event_id = 7, product_id = 65535\<rparr>,
         \<lparr>last_record_type = 0, last_event_id = 0, product_id = 65535\<rparr>],
      stats = (\<lambda>field. 0),
      world = \<lparr>gw_devices = [Some addr_A, None], gw_blocked = [], gw_created = []\<rparr>,
      calls = []\<rparr>"

text \<open>
  Events, scan responses, frames and further states on which the theorems are
  evaluated: a pressure event (a disabled category), a temperature event whose payload
  encodes \<open>-123\<close>, a repetition of the last event of \<open>addr_A\<close>, two battery events, and
  two coded frames in the layout of the reference parser. In \<open>freed_state\<close> the flag is
  set and slot 0, which held a BT6XX device, is free in the directory; in
  \<open>crowded_state\<close> the directory has no free slot; in \<open>blocking_state\<close> it blocks
  \<open>addr_B\<close>; in \<open>bt6xx_state\<close> the product ids of both slots are known.
  \<open>rogue_extern\<close> answers every call with 7, an index outside the table.
\<close>

definition pressure_event :: LczSensorAdEvent where
  "pressure_event = \<lparr>recordType = 28, id' = 3, data = \<lparr>u16 = 0, s32 = 0, f = 1013\<rparr>\<rparr>"

definition cold_event :: LczSensorAdEvent where
  "cold_event = \<lparr>recordType = 1, id' = 9, data = \<lparr>u16 = 65413, s32 = 0, f = 0\<rparr>\<rparr>"

definition repeat_event :: LczSensorAdEvent where
  "repeat_event = \<lparr>recordType = 1, id' = 7, data = \<lparr>u16 = 2500, s32 = 0, f = 0\<rparr>\<rparr>"

definition freed_state :: "gateway lbs" where
  "freed_state =
     \<lparr>table_full = True,
      table =
        [\<lparr>last_record_type = 12, last_event_id = 41, product_id = 1\<rparr>,
         \<lparr>last_record_type = 1, last_event_id = 7, product_id = 0\<rparr>],
      stats = (\<lambda>field. 0),
      world = \<lparr>gw_devices = [None, Some addr_A], gw_blocked = [], gw_created = []\<rparr>,
      calls = []\<rparr>"


definition crowded_state :: "gateway lbs" where
  "crowded_state =
     demo_state\<lparr>world := \<lparr>gw_devices = [Some addr_A, Some addr_A], gw_blocked = [],
                           gw_created = []\<rparr>\<rparr>"

definition blocking_state :: "gateway lbs" where
  "blocking_state =
     demo_state\<lparr>world := \<lparr>gw_devices = [Some addr_A, None], gw_blocked = [addr_B],
                           gw_created = []\<rparr>\<rparr>"

definition new_rsp :: LczSensorRsp where
  "new_rsp = \<lparr>productId = 0\<rparr>"

definition bt6xx_state :: "gateway lbs" where
  "bt6xx_state =
     demo_state\<lparr>table :=
       [\<lparr>last_record_type = 1, last_event_id = 7, product_id = 1\<rparr>,
        \<lparr>last_record_type = 0, last_event_id = 0, product_id = 0\<rparr>]\<rparr>"

definition negative_battery_event :: LczSensorAdEvent where
  "negative_battery_event =
     \<lparr>recordType = 12, id' = 10, data = \<lparr>u16 = 65535, s32 = 4294967295, f = 0\<rparr>\<rparr>"

definition battery_event :: LczSensorAdEvent where
  "battery_event = \<lparr>recordType = 16, id' = 11, data = \<lparr>u16 = 3777, s32 = 3777, f = 0\<rparr>\<rparr>"

definition coded_frame :: "8 word list" where
  "coded_frame = [2, 1, 8, 133, 1, 65, 66]"

definition coded_pressure_frame :: "8 word list" where
  "coded_pressure_frame = [2, 28, 8, 133, 1, 65, 66]"

section \<open>Facts about the operations\<close>

lemma ext_call_snd [simp]:
  "table (snd (ext_call X c s)) = table s"
  "table_full (snd (ext_call X c s)) = table_full s"
  "stats (snd (ext_call X c s)) = stats s"
  "calls (snd (ext_call X c s)) = calls s @ [c]"
  "world (snd (ext_call X c s)) = snd (respond X (world s) c)"
  "fst (ext_call X c s) = fst (respond X (world s) c)"
  by (simp_all add: ext_call_def split_beta)

lemma INCR_STAT_simps [simp]:
  "table (INCR_STAT C fld s) = table s"
  "table_full (INCR_STAT C fld s) = table_full s"
  "world (INCR_STAT C fld s) = world s"
  "calls (INCR_STAT C fld s) = calls s"
  by (simp_all add: INCR_STAT_def)

lemma log_create_simps [simp]:
  "table (log_create C X idx s) = table s"
  "table_full (log_create C X idx s) = table_full s"
  "stats (log_create C X idx s) = stats s"
  by (simp_all add: log_create_def)

lemma log_create_calls:
  "\<exists>cs. calls (log_create C X idx s) = calls s @ cs \<and> filter is_create cs = [] \<and> filter is_lookup cs = []"
  by (simp add: log_create_def)

lemma table_at_Some:
  "valid_index C idx \<Longrightarrow> length (table s) = MAX_INSTANCES C \<Longrightarrow> table_at s idx = Some (table s ! nat idx)"
  by (simp add: table_at_def valid_index_def nat_less_iff)

lemma table_set_Some:
  "valid_index C idx \<Longrightarrow> length (table s) = MAX_INSTANCES C \<Longrightarrow>
     table_set s idx upd = Some (s\<lparr>table := (table s)[nat idx := upd (table s ! nat idx)]\<rparr>)"
  by (simp add: table_set_def valid_index_def nat_less_iff)

lemma get_index_table [simp]: "table (snd (get_index C X addr add s)) = table s"
  by (simp add: get_index_def Let_def split_beta)

lemma get_index_bound: "fst (get_index C X addr add s) < int (MAX_INSTANCES C)"
  by (simp add: get_index_def Let_def EPERM_def split_beta)

lemma get_index_table_full_mono: "table_full s \<Longrightarrow> table_full (snd (get_index C X addr add s))"
  by (simp add: get_index_def Let_def split_beta)

lemma get_index_no_add:
  "get_index C X addr False s =
     (let idx = fst (respond X (world s) (lcz_lwm2m_gw_obj_lookup_ble addr))
      in (if idx \<ge> int (MAX_INSTANCES C) then - EPERM else idx,
          snd (ext_call X (lcz_lwm2m_gw_obj_lookup_ble addr) s)))"
  by (simp add: get_index_def Let_def split_beta)

lemma get_index_calls:
  "\<exists>cs. calls (snd (get_index C X addr add s)) = calls s @ lcz_lwm2m_gw_obj_lookup_ble addr # cs
        \<and> length (filter is_create cs) \<le> 1 \<and> filter is_lookup cs = []"
  using log_create_calls [of C X "fst (ext_call X (lcz_lwm2m_gw_obj_create addr) (snd (ext_call X (lcz_lwm2m_gw_obj_lookup_ble addr) s)))"
      "snd (ext_call X (lcz_lwm2m_gw_obj_create addr) (snd (ext_call X (lcz_lwm2m_gw_obj_lookup_ble addr) s)))"]
  by (auto simp add: get_index_def Let_def split_beta)

lemma ad_process_Some:
  assumes "table_at s idx = Some slot"
  shows "\<exists>s'. ad_process C X idx p rssi s = Some s'"
  using assms by (simp add: ad_process_def Let_def split_beta)

lemma ad_process_frame':
  "case ad_process C X idx p rssi s of
     None \<Rightarrow> True
   | Some s' \<Rightarrow> table s' = table s \<and> table_full s' = table_full s
       \<and> (\<exists>cs. calls s' = calls s @ cs \<and> filter is_create cs = [] \<and> filter is_lookup cs = [])"
  by (simp add: ad_process_def Let_def split_beta split: option.split bind_split)

lemma ad_process_frame:
  assumes "ad_process C X idx p rssi s = Some s'"
  shows "table s' = table s" and "table_full s' = table_full s"
    and "\<exists>cs. calls s' = calls s @ cs \<and> filter is_create cs = [] \<and> filter is_lookup cs = []"
  using ad_process_frame' [where C=C and X=X and idx=idx and p=p and rssi=rssi and s=s] assms by simp_all

lemma ad_discard_unknown:
  assumes "uint (recordType p) \<notin>
     {SENSOR_EVENT_TEMPERATURE C, SENSOR_EVENT_BATTERY_GOOD C, SENSOR_EVENT_BATTERY_BAD C,
      SENSOR_EVENT_TEMPERATURE_1 C, SENSOR_EVENT_TEMPERATURE_2 C,
      SENSOR_EVENT_TEMPERATURE_3 C, SENSOR_EVENT_TEMPERATURE_4 C,
      SENSOR_EVENT_CURRENT_1 C, SENSOR_EVENT_CURRENT_2 C,
      SENSOR_EVENT_CURRENT_3 C, SENSOR_EVENT_CURRENT_4 C,
      SENSOR_EVENT_PRESSURE_1 C, SENSOR_EVENT_PRESSURE_2 C, SENSOR_EVENT_ULTRASONIC_1 C}"
  shows "ad_discard C p"
  using assms by (simp add: ad_discard_def)

lemma ad_discard_disabled:
  assumes "switch_labels_distinct C"
    and "uint (recordType p) \<in>
           {SENSOR_EVENT_TEMPERATURE C, SENSOR_EVENT_TEMPERATURE_1 C, SENSOR_EVENT_TEMPERATURE_2 C,
            SENSOR_EVENT_TEMPERATURE_3 C, SENSOR_EVENT_TEMPERATURE_4 C}
           \<and> \<not> CONFIG_LCZ_LWM2M_TEMPERATURE C
         \<or> uint (recordType p) \<in> {SENSOR_EVENT_BATTERY_GOOD C, SENSOR_EVENT_BATTERY_BAD C}
           \<and> \<not> CONFIG_LCZ_LWM2M_BATTERY C
         \<or> uint (recordType p) \<in>
           {SENSOR_EVENT_CURRENT_1 C, SENSOR_EVENT_CURRENT_2 C,
            SENSOR_EVENT_CURRENT_3 C, SENSOR_EVENT_CURRENT_4 C}
           \<and> \<not> CONFIG_LCZ_LWM2M_CURRENT C
         \<or> uint (recordType p) \<in> {SENSOR_EVENT_PRESSURE_1 C, SENSOR_EVENT_PRESSURE_2 C}
           \<and> \<not> CONFIG_LCZ_LWM2M_PRESSURE C
         \<or> uint (recordType p) = SENSOR_EVENT_ULTRASONIC_1 C
           \<and> \<not> CONFIG_LCZ_LWM2M_FILL_LEVEL C"
  shows "ad_discard C p"
  using assms by (auto simp add: ad_discard_def switch_labels_distinct_def)

lemma get_index_snd_facts:
  assumes "get_index C X addr add s = (i, s1)"
  shows "table s1 = table s" and "i < int (MAX_INSTANCES C)"
  using get_index_table [of C X addr add s] get_index_bound [of C X addr add s] assms
  by simp_all

text \<open>The result of ad_filter once the type gate and the index resolution have succeeded.\<close>

lemma ad_filter_resolved:
  assumes len: "length (table s) = MAX_INSTANCES C"
    and gate: "\<not> ad_discard C p"
    and res: "get_index C X addr True (INCR_STAT C accepted_ads s) = (i, s1)"
    and valid: "valid_index C i"
  shows "ad_filter C X addr (Some p) rssi s =
     (if id' p \<noteq> 0 \<and> id' p = last_event_id (table s ! nat i)
         \<and> recordType p = last_record_type (table s ! nat i)
      then Some (i, INCR_STAT C indexed_ads s1)
      else
        do {
          s4 \<leftarrow> ad_process C X i p rssi
            (let s3 = (INCR_STAT C indexed_ads s1)
                       \<lparr>table := (table s)[nat i := (table s ! nat i)
                          \<lparr>last_event_id := id' p, last_record_type := recordType p\<rparr>]\<rparr>
             in if CONFIG_LCZ_LWM2M_BLE_SENSOR_LED C then snd (ext_call X lcz_led_blink s3) else s3);
          Some (i, snd (ext_call X (lcz_lwm2m_gw_obj_set_lifetime i (LIFETIME C)) s4))
        })"
proof -
  have t1: "table s1 = table s"
    using get_index_snd_facts(1) [OF res] by simp
  have inb: "0 \<le> i" "nat i < length (table s)"
    using valid len by (simp_all add: valid_index_def nat_less_iff)
  show ?thesis
    using gate valid inb t1
    by (simp add: ad_filter_def res table_at_def table_set_def Let_def split_beta)
qed

lemma ad_filter_duplicate:
  assumes len: "length (table s) = MAX_INSTANCES C"
    and gate: "\<not> ad_discard C p"
    and res: "get_index C X addr True (INCR_STAT C accepted_ads s) = (i, s1)"
    and valid: "valid_index C i"
    and dup: "id' p \<noteq> 0 \<and> id' p = last_event_id (table s ! nat i)
             \<and> recordType p = last_record_type (table s ! nat i)"
  shows "ad_filter C X addr (Some p) rssi s = Some (i, INCR_STAT C indexed_ads s1)"
  unfolding ad_filter_resolved [OF len gate res valid, of rssi] using dup by (rule if_P)

lemma ad_filter_fresh:
  assumes len: "length (table s) = MAX_INSTANCES C"
    and gate: "\<not> ad_discard C p"
    and res: "get_index C X addr True (INCR_STAT C accepted_ads s) = (i, s1)"
    and valid: "valid_index C i"
    and fresh: "\<not> (id' p \<noteq> 0 \<and> id' p = last_event_id (table s ! nat i)
             \<and> recordType p = last_record_type (table s ! nat i))"
  shows "\<exists>s' cs. ad_filter C X addr (Some p) rssi s = Some (i, s')
      \<and> table s' = (table s)[nat i := (table s ! nat i)
                          \<lparr>last_event_id := id' p, last_record_type := recordType p\<rparr>]
      \<and> table_full s' = table_full s1
      \<and> calls s' = calls s1 @ cs @ [lcz_lwm2m_gw_obj_set_lifetime i (LIFETIME C)]
      \<and> filter is_create cs = [] \<and> filter is_lookup cs = []"
proof -
  define s3 where "s3 = (INCR_STAT C indexed_ads s1)
                       \<lparr>table := (table s)[nat i := (table s ! nat i)
                          \<lparr>last_event_id := id' p, last_record_type := recordType p\<rparr>]\<rparr>"
  define s3' where "s3' = (if CONFIG_LCZ_LWM2M_BLE_SENSOR_LED C
                           then snd (ext_call X lcz_led_blink s3) else s3)"
  have inb: "0 \<le> i" "nat i < length (table s)"
    using valid len by (simp_all add: valid_index_def nat_less_iff)
  have tab3: "table s3' = (table s)[nat i := (table s ! nat i)
                          \<lparr>last_event_id := id' p, last_record_type := recordType p\<rparr>]"
    by (simp add: s3'_def s3_def)
  have full3: "table_full s3' = table_full s1"
    by (simp add: s3'_def s3_def)
  have "\<exists>pre. calls s3' = calls s1 @ pre \<and> filter is_create pre = [] \<and> filter is_lookup pre = []"
    by (simp add: s3'_def s3_def)
  then obtain pre where pre: "calls s3' = calls s1 @ pre"
      "filter is_create pre = []" "filter is_lookup pre = []"
    by blast
  have "table_at s3' i = Some (table s3' ! nat i)"
    using inb by (simp add: table_at_def tab3)
  then obtain s4 where s4: "ad_process C X i p rssi s3' = Some s4"
    using ad_process_Some by blast
  obtain cs where cs: "calls s4 = calls s3' @ cs"
      "filter is_create cs = []" "filter is_lookup cs = []"
    using ad_process_frame(3) [OF s4] by blast
  let ?s' = "snd (ext_call X (lcz_lwm2m_gw_obj_set_lifetime i (LIFETIME C)) s4)"
  have "ad_filter C X addr (Some p) rssi s =
      do {
        s4 \<leftarrow> ad_process C X i p rssi s3';
        Some (i, snd (ext_call X (lcz_lwm2m_gw_obj_set_lifetime i (LIFETIME C)) s4))
      }"
    unfolding ad_filter_resolved [OF len gate res valid, of rssi] s3'_def s3_def Let_def
    using fresh by (rule if_not_P)
  then have run: "ad_filter C X addr (Some p) rssi s = Some (i, ?s')"
    by (simp add: s4)
  have c: "calls ?s' = calls s1 @ (pre @ cs) @ [lcz_lwm2m_gw_obj_set_lifetime i (LIFETIME C)]"
    by (simp add: cs pre)
  have f: "filter is_create (pre @ cs) = []" "filter is_lookup (pre @ cs) = []"
    by (simp_all add: cs pre)
  have tb: "table ?s' = (table s)[nat i := (table s ! nat i)
                          \<lparr>last_event_id := id' p, last_record_type := recordType p\<rparr>]"
    by (simp add: ad_process_frame(1) [OF s4] tab3)
  have fl: "table_full ?s' = table_full s1"
    by (simp add: ad_process_frame(2) [OF s4] full3)
  from run c f tb fl show ?thesis by blast
qed

lemma demo_get_index_A:
  "get_index demo_config demo_extern addr_A True (INCR_STAT demo_config accepted_ads demo_state)
     = (0, snd (get_index demo_config demo_extern addr_A True
                 (INCR_STAT demo_config accepted_ads demo_state)))"
  "calls (snd (get_index demo_config demo_extern addr_A True
                 (INCR_STAT demo_config accepted_ads demo_state)))
     = [lcz_lwm2m_gw_obj_lookup_ble addr_A]"
  by (simp_all add: prod_eq_iff get_index_def ext_call_def INCR_STAT_def demo_config_def
      demo_extern_def demo_state_def addr_A_def valid_index_def Let_def)

lemma get_index_pair_facts:
  assumes "get_index C X addr add s = (i, s1)"
  shows "table_full s \<Longrightarrow> table_full s1"
    and "\<exists>cs. calls s1 = calls s @ lcz_lwm2m_gw_obj_lookup_ble addr # cs
          \<and> length (filter is_create cs) \<le> 1 \<and> filter is_lookup cs = []"
  using get_index_table_full_mono [of s C X addr add] get_index_calls [of C X addr add s] assms
  by simp_all

lemma map_product_id_marker_update:
  "n < length xs \<Longrightarrow>
     map product_id (xs[n := (xs ! n)\<lparr>last_event_id := a, last_record_type := b\<rparr>])
       = map product_id xs"
  by (simp add: map_update list_update_same_conv)

lemma ad_filter_total:
  assumes len: "length (table s) = MAX_INSTANCES C"
  shows "\<exists>r s' cs. ad_filter C X addr p_opt rssi s = Some (r, s')
      \<and> length (table s') = length (table s)
      \<and> map product_id (table s') = map product_id (table s)
      \<and> (table_full s \<longrightarrow> table_full s')
      \<and> calls s' = calls s @ cs
      \<and> length (filter is_create cs) \<le> 1 \<and> length (filter is_lookup cs) \<le> 1"
proof (cases p_opt)
  case None
  then show ?thesis by (simp add: ad_filter_def)
next
  case (Some p)
  show ?thesis
  proof (cases "ad_discard C p")
    case True
    then show ?thesis by (simp add: Some ad_filter_def)
  next
    case gate: False
    obtain i s1 where res: "get_index C X addr True (INCR_STAT C accepted_ads s) = (i, s1)"
      by (cases "get_index C X addr True (INCR_STAT C accepted_ads s)") blast
    have t1: "table s1 = table s"
      using get_index_snd_facts(1) [OF res] by simp
    have f1: "table_full s \<longrightarrow> table_full s1"
      using get_index_pair_facts(1) [OF res] by simp
    obtain cs1 where cs1: "calls s1 = calls s @ lcz_lwm2m_gw_obj_lookup_ble addr # cs1"
        "length (filter is_create cs1) \<le> 1" "filter is_lookup cs1 = []"
      using get_index_pair_facts(2) [OF res] by auto
    show ?thesis
    proof (cases "valid_index C i")
      case False
      then have "ad_filter C X addr p_opt rssi s = Some (i, s1)"
        using gate by (simp add: Some ad_filter_def res)
      with t1 f1 cs1 show ?thesis by simp
    next
      case valid: True
      have inb: "nat i < length (table s)"
        using valid len by (simp add: valid_index_def nat_less_iff)
      show ?thesis
      proof (cases "id' p \<noteq> 0 \<and> id' p = last_event_id (table s ! nat i)
             \<and> recordType p = last_record_type (table s ! nat i)")
        case True
        have "ad_filter C X addr p_opt rssi s = Some (i, INCR_STAT C indexed_ads s1)"
          unfolding Some using len gate res valid True by (rule ad_filter_duplicate)
        with t1 f1 cs1 show ?thesis by simp
      next
        case False
        obtain s' cs where run: "ad_filter C X addr (Some p) rssi s = Some (i, s')"
          and tb: "table s' = (table s)[nat i := (table s ! nat i)
                          \<lparr>last_event_id := id' p, last_record_type := recordType p\<rparr>]"
          and fl: "table_full s' = table_full s1"
          and c: "calls s' = calls s1 @ cs @ [lcz_lwm2m_gw_obj_set_lifetime i (LIFETIME C)]"
          and nc: "filter is_create cs = []" "filter is_lookup cs = []"
          using ad_filter_fresh [OF len gate res valid False, of rssi] by blast
        have "map product_id (table s') = map product_id (table s)"
          using inb by (simp only: tb map_product_id_marker_update)
        moreover have "length (table s') = length (table s)"
          by (simp add: tb)
        moreover have "calls s' = calls s @
            (lcz_lwm2m_gw_obj_lookup_ble addr # cs1 @ cs @ [lcz_lwm2m_gw_obj_set_lifetime i (LIFETIME C)])"
          by (simp add: c cs1)
        moreover have "length (filter is_create
            (lcz_lwm2m_gw_obj_lookup_ble addr # cs1 @ cs @ [lcz_lwm2m_gw_obj_set_lifetime i (LIFETIME C)])) \<le> 1"
          using cs1 nc by simp
        moreover have "length (filter is_lookup
            (lcz_lwm2m_gw_obj_lookup_ble addr # cs1 @ cs @ [lcz_lwm2m_gw_obj_set_lifetime i (LIFETIME C)])) \<le> 1"
          using cs1 nc by simp
        ultimately show ?thesis
          using run f1 fl unfolding Some by blast
      qed
    qed
  qed
qed

lemma rsp_handler_Some:
  assumes len: "length (table s) = MAX_INSTANCES C"
  shows "\<exists>i s'. rsp_handler C X addr (Some r) s = Some (i, s')
      \<and> i = fst (get_index C X addr False s)
      \<and> calls s' = calls s @ [lcz_lwm2m_gw_obj_lookup_ble addr]
      \<and> table_full s' = table_full s
      \<and> length (table s') = length (table s)
      \<and> (if 0 \<le> i
          then table s' = (table s)[nat i := (table s ! nat i)\<lparr>product_id := uint (productId r)\<rparr>]
          else table s' = table s)"
  using len
  by (simp add: rsp_handler_def get_index_no_add table_set_def Let_def EPERM_def nat_less_iff)

lemma name_handler_frame:
  "table (name_handler C X idx ad s) = table s"
  "table_full (name_handler C X idx ad s) = table_full s"
  "\<exists>cs. calls (name_handler C X idx ad s) = calls s @ cs
        \<and> filter is_create cs = [] \<and> filter is_lookup cs = []"
  by (simp_all add: name_handler_def Let_def split_beta split: option.split)

lemma gw_obj_removed_invalid:
  "\<not> valid_index C idx \<Longrightarrow> gw_obj_removed C idx s = Some (0, s)"
  by (simp add: gw_obj_removed_def)

lemma gw_obj_removed_valid:
  "valid_index C idx \<Longrightarrow> length (table s) = MAX_INSTANCES C \<Longrightarrow>
     gw_obj_removed C idx s =
       Some (0, s\<lparr>table_full := False,
                  table := (table s)[nat idx := (table s ! nat idx)
                             \<lparr>product_id := INVALID_PRODUCT_ID C\<rparr>]\<rparr>)"
  by (simp add: gw_obj_removed_def table_set_def valid_index_def nat_less_iff)

lemma ad_handler_1m:
  assumes len: "length (table s) = MAX_INSTANCES C"
    and m: "lcz_sensor_adv_match_1m X (AdFind_Type X ad)"
  shows "\<exists>r s1. ad_filter C X addr (map_option (as_LczSensorAdEvent X) (AdFind_Type X ad)) rssi
                  (INCR_STAT C ads s) = Some (r, s1)
          \<and> ad_handler C X addr rssi adv_type ad s = Some (INCR_STAT C legacy_ads s1)"
proof -
  have "length (table (INCR_STAT C ads s)) = MAX_INSTANCES C"
    using len by simp
  from ad_filter_total [OF this]
  obtain r s1 where "ad_filter C X addr (map_option (as_LczSensorAdEvent X) (AdFind_Type X ad)) rssi
                  (INCR_STAT C ads s) = Some (r, s1)"
    by blast
  then show ?thesis
    using m by (simp add: ad_handler_def Let_def)
qed

lemma ad_handler_coded:
  assumes len: "length (table s) = MAX_INSTANCES C"
    and m1: "\<not> lcz_sensor_adv_match_1m X (AdFind_Type X ad)"
    and m2: "lcz_sensor_adv_match_coded X (AdFind_Type X ad)"
    and h: "AdFind_Type X ad = Some payload"
    and c: "as_LczSensorAdCoded X payload = (e, r)"
  shows "\<exists>i1 s1 i2 s2.
           ad_filter C X addr (Some e) rssi (INCR_STAT C coded_ads (INCR_STAT C ads s)) = Some (i1, s1)
         \<and> rsp_handler C X addr (Some r) s1 = Some (i2, s2)
         \<and> ad_handler C X addr rssi adv_type ad s = Some (name_handler C X i2 ad s2)
         \<and> length (table s1) = MAX_INSTANCES C"
proof -
  have "length (table (INCR_STAT C coded_ads (INCR_STAT C ads s))) = MAX_INSTANCES C"
    using len by simp
  from ad_filter_total [OF this]
  obtain i1 s1 where f: "ad_filter C X addr (Some e) rssi
       (INCR_STAT C coded_ads (INCR_STAT C ads s)) = Some (i1, s1)"
    and l1: "length (table s1) = length (table (INCR_STAT C coded_ads (INCR_STAT C ads s)))"
    by blast
  have len1: "length (table s1) = MAX_INSTANCES C"
    using l1 len by simp
  from rsp_handler_Some [OF len1]
  obtain i2 s2 where g: "rsp_handler C X addr (Some r) s1 = Some (i2, s2)"
    by blast
  have "ad_handler C X addr rssi adv_type ad s = Some (name_handler C X i2 ad s2)"
    using m1 m2 by (simp add: ad_handler_def Let_def h c f g)
  with f g len1 show ?thesis by blast
qed

lemma ad_handler_rsp:
  assumes len: "length (table s) = MAX_INSTANCES C"
    and m1: "\<not> lcz_sensor_adv_match_1m X (AdFind_Type X ad)"
    and m2: "\<not> lcz_sensor_adv_match_coded X (AdFind_Type X ad)"
    and m3: "lcz_sensor_adv_match_rsp X (AdFind_Type X ad)"
    and h: "AdFind_Type X ad = Some payload"
  shows "\<exists>i2 s2.
           rsp_handler C X addr (Some (as_LczSensorRspWithHeader X payload))
             (INCR_STAT C rsp_ads (INCR_STAT C ads s)) = Some (i2, s2)
         \<and> ad_handler C X addr rssi adv_type ad s = Some (name_handler C X i2 ad s2)"
proof -
  have "length (table (INCR_STAT C rsp_ads (INCR_STAT C ads s))) = MAX_INSTANCES C"
    using len by simp
  from rsp_handler_Some [OF this]
  obtain i2 s2 where g: "rsp_handler C X addr (Some (as_LczSensorRspWithHeader X payload))
             (INCR_STAT C rsp_ads (INCR_STAT C ads s)) = Some (i2, s2)"
    by blast
  have "ad_handler C X addr rssi adv_type ad s = Some (name_handler C X i2 ad s2)"
    using m1 m2 m3 by (simp add: ad_handler_def Let_def h g)
  with g show ?thesis by blast
qed

lemma ad_handler_summary:
  assumes len: "length (table s) = MAX_INSTANCES C"
    and run: "ad_handler C X addr rssi adv_type ad s = Some s'"
  shows "length (table s') = length (table s) \<and> (table_full s \<longrightarrow> table_full s')
       \<and> (\<exists>cs. calls s' = calls s @ cs \<and> length (filter is_create cs) \<le> 1)"
proof (cases "lcz_sensor_adv_match_1m X (AdFind_Type X ad)")
  case True
  have l0: "length (table (INCR_STAT C ads s)) = MAX_INSTANCES C"
    using len by simp
  from ad_filter_total [OF l0, of X addr "map_option (as_LczSensorAdEvent X) (AdFind_Type X ad)" rssi]
  obtain r s1 cs where f: "ad_filter C X addr (map_option (as_LczSensorAdEvent X) (AdFind_Type X ad))
        rssi (INCR_STAT C ads s) = Some (r, s1)"
    and facts: "length (table s1) = length (table (INCR_STAT C ads s))"
      "table_full (INCR_STAT C ads s) \<longrightarrow> table_full s1"
      "calls s1 = calls (INCR_STAT C ads s) @ cs" "length (filter is_create cs) \<le> 1"
    by blast
  have "s' = INCR_STAT C legacy_ads s1"
    using run True by (simp add: ad_handler_def Let_def f)
  with facts show ?thesis by simp
next
  case m1: False
  show ?thesis
  proof (cases "lcz_sensor_adv_match_coded X (AdFind_Type X ad)")
    case m2: True
    obtain payload where h: "AdFind_Type X ad = Some payload"
      using run m1 m2 by (cases "AdFind_Type X ad") (simp_all add: ad_handler_def Let_def)
    obtain e r where c: "as_LczSensorAdCoded X payload = (e, r)"
      by (cases "as_LczSensorAdCoded X payload") blast
    have l0: "length (table (INCR_STAT C coded_ads (INCR_STAT C ads s))) = MAX_INSTANCES C"
      using len by simp
    from ad_filter_total [OF l0, of X addr "Some e" rssi]
    obtain i1 s1 cs where f: "ad_filter C X addr (Some e) rssi
          (INCR_STAT C coded_ads (INCR_STAT C ads s)) = Some (i1, s1)"
      and facts: "length (table s1) = length (table (INCR_STAT C coded_ads (INCR_STAT C ads s)))"
        "table_full (INCR_STAT C coded_ads (INCR_STAT C ads s)) \<longrightarrow> table_full s1"
        "calls s1 = calls (INCR_STAT C coded_ads (INCR_STAT C ads s)) @ cs"
        "length (filter is_create cs) \<le> 1"
      by blast
    have len1: "length (table s1) = MAX_INSTANCES C"
      using facts(1) len by simp
    from rsp_handler_Some [OF len1, of X addr r]
    obtain i2 s2 where g: "rsp_handler C X addr (Some r) s1 = Some (i2, s2)"
      and gf: "calls s2 = calls s1 @ [lcz_lwm2m_gw_obj_lookup_ble addr]"
        "table_full s2 = table_full s1" "length (table s2) = length (table s1)"
      by blast
    obtain ns where ns: "calls (name_handler C X i2 ad s2) = calls s2 @ ns"
        "filter is_create ns = []"
      using name_handler_frame(3) [of C X i2 ad s2] by blast
    have s': "s' = name_handler C X i2 ad s2"
      using run m1 m2 by (simp add: ad_handler_def Let_def h c f g)
    have "calls s' = calls s @ (cs @ lcz_lwm2m_gw_obj_lookup_ble addr # ns)"
      by (simp add: s' ns gf facts)
    moreover have "length (filter is_create (cs @ lcz_lwm2m_gw_obj_lookup_ble addr # ns)) \<le> 1"
      using facts(4) ns(2) by simp
    moreover have "length (table s') = length (table s)"
      by (simp add: s' name_handler_frame gf facts)
    moreover have "table_full s \<longrightarrow> table_full s'"
      using facts(2) by (simp add: s' name_handler_frame gf)
    ultimately show ?thesis by blast
  next
    case m2: False
    show ?thesis
    proof (cases "lcz_sensor_adv_match_rsp X (AdFind_Type X ad)")
      case m3: True
      obtain payload where h: "AdFind_Type X ad = Some payload"
        using run m1 m2 m3 by (cases "AdFind_Type X ad") (simp_all add: ad_handler_def Let_def)
      have l0: "length (table (INCR_STAT C rsp_ads (INCR_STAT C ads s))) = MAX_INSTANCES C"
        using len by simp
      from rsp_handler_Some [OF l0, of X addr "as_LczSensorRspWithHeader X payload"]
      obtain i2 s2 where g: "rsp_handler C X addr (Some (as_LczSensorRspWithHeader X payload))
             (INCR_STAT C rsp_ads (INCR_STAT C ads s)) = Some (i2, s2)"
        and gf: "calls s2 = calls (INCR_STAT C rsp_ads (INCR_STAT C ads s))
                    @ [lcz_lwm2m_gw_obj_lookup_ble addr]"
          "table_full s2 = table_full (INCR_STAT C rsp_ads (INCR_STAT C ads s))"
          "length (table s2) = length (table (INCR_STAT C rsp_ads (INCR_STAT C ads s)))"
        by blast
      obtain ns where ns: "calls (name_handler C X i2 ad s2) = calls s2 @ ns"
          "filter is_create ns = []"
        using name_handler_frame(3) [of C X i2 ad s2] by blast
      have s': "s' = name_handler C X i2 ad s2"
        using run m1 m2 m3 by (simp add: ad_handler_def Let_def h g)
      have "calls s' = calls s @ (lcz_lwm2m_gw_obj_lookup_ble addr # ns)"
        by (simp add: s' ns gf)
      moreover have "length (filter is_create (lcz_lwm2m_gw_obj_lookup_ble addr # ns)) \<le> 1"
        using ns(2) by simp
      moreover have "length (table s') = length (table s)"
        by (simp add: s' name_handler_frame gf)
      moreover have "table_full s \<longrightarrow> table_full s'"
        by (simp add: s' name_handler_frame gf)
      ultimately show ?thesis by blast
    next
      case m3: False
      have "s' = INCR_STAT C ads s"
        using run m1 m2 m3 by (simp add: ad_handler_def Let_def)
      then show ?thesis by simp
    qed
  qed
qed

lemmas demo_defs =
  demo_config_def demo_extern_def demo_state_def addr_A_def addr_B_def

lemmas run_defs =
  get_index_def ext_call_def INCR_STAT_def valid_index_def log_create_def table_at_def
  table_set_def ad_filter_def ad_discard_def ad_process_def battery_convert_def
  rsp_handler_def name_handler_def gw_obj_removed_def ad_handler_def Let_def
  EPERM_def ENOMEM_def

lemma ad_filter_keeps_flag:
  assumes len: "length (table s) = MAX_INSTANCES C"
    and run: "ad_filter C X addr p_opt rssi s = Some (r, s')"
    and full: "table_full s"
  shows "table_full s'"
  using ad_filter_total [OF len, of X addr p_opt rssi] run full by auto

lemma rsp_handler_keeps_flag:
  assumes len: "length (table s) = MAX_INSTANCES C"
    and run: "rsp_handler C X addr r_opt s = Some (r, s')"
    and full: "table_full s"
  shows "table_full s'"
proof (cases r_opt)
  case None
  then show ?thesis using run full by (simp add: rsp_handler_def)
next
  case (Some p)
  then show ?thesis using rsp_handler_Some [OF len, of X addr p] run full by auto
qed

lemma events_only_invariant:
  assumes "events_only C X s s'"
    and "length (table s) = MAX_INSTANCES C"
  shows "length (table s') = MAX_INSTANCES C
       \<and> map product_id (table s') = map product_id (table s)"
  using assms
proof (induction rule: events_only.induct)
  case (events_none s)
  then show ?case by simp
next
  case (events_filter s s1 addr p rssi idx s2)
  then have l1: "length (table s1) = MAX_INSTANCES C"
    and m1: "map product_id (table s1) = map product_id (table s)"
    by simp_all
  from ad_filter_total [OF l1, of X addr p rssi] events_filter.hyps(2)
  have "length (table s2) = length (table s1)
      \<and> map product_id (table s2) = map product_id (table s1)"
    by auto
  with l1 m1 show ?case by simp
next
  case (events_name s s1 idx ad)
  then show ?case by (simp add: name_handler_frame)
qed

lemma uint_eq_sint_nonneg:
  fixes w :: "32 word"
  assumes "0 \<le> sint w"
  shows "uint w = sint w"
proof -
  have "sint w < 2 ^ 32"
    using sint_less [of w] by simp
  then have "take_bit 32 (sint w) = sint w"
    using assms by (simp add: take_bit_int_eq_self)
  then show ?thesis
    using uint_sint [of w] by simp
qed

lemma unsigned_ucast_16_32:
  fixes w :: "16 word"
  shows "(unsigned (ucast w :: 32 word) :: real) = unsigned w"
proof -
  have "uint (ucast w :: 32 word) = uint w"
    by (rule uint_up_ucast) (simp add: is_up)
  then have "real_of_int (uint (ucast w :: 32 word)) = real_of_int (uint w)"
    by (rule arg_cong)
  then show ?thesis by simp
qed

lemma ad_process_battery:
  assumes on: "CONFIG_LCZ_LWM2M_BATTERY C"
    and ty: "uint (recordType p) = b"
    and b: "b = SENSOR_EVENT_BATTERY_GOOD C \<or> b = SENSOR_EVENT_BATTERY_BAD C"
    and t: "b \<noteq> SENSOR_EVENT_TEMPERATURE C"
      "b \<noteq> SENSOR_EVENT_TEMPERATURE_1 C" "b \<noteq> SENSOR_EVENT_TEMPERATURE_2 C"
      "b \<noteq> SENSOR_EVENT_TEMPERATURE_3 C" "b \<noteq> SENSOR_EVENT_TEMPERATURE_4 C"
    and slot: "table_at s idx = Some sl"
  shows "\<exists>s'. ad_process C X idx p rssi s = Some s'
      \<and> calls s' = calls s @
          [lcz_lwm2m_managed_battery_set idx 0
             (fst (battery_convert C X (product_id sl) p))
             (snd (battery_convert C X (product_id sl) p))]"
  using on t slot b by (simp add: ad_process_def Let_def split_beta ty)

lemma get_index_calls_exact:
  "\<exists>cs. calls (snd (get_index C X addr add s)) = calls s @ lcz_lwm2m_gw_obj_lookup_ble addr # cs
        \<and> filter is_lookup cs = []
        \<and> length (filter is_create cs) =
            (if \<not> valid_index C (fst (respond X (world s) (lcz_lwm2m_gw_obj_lookup_ble addr)))
                \<and> add \<and> \<not> table_full s
             then 1 else 0)"
  using log_create_calls [of C X "fst (ext_call X (lcz_lwm2m_gw_obj_create addr) (snd (ext_call X (lcz_lwm2m_gw_obj_lookup_ble addr) s)))"
      "snd (ext_call X (lcz_lwm2m_gw_obj_create addr) (snd (ext_call X (lcz_lwm2m_gw_obj_lookup_ble addr) s)))"]
  by (auto simp add: get_index_def Let_def split_beta)

lemma ad_filter_passed_counts:
  assumes len: "length (table s) = MAX_INSTANCES C"
    and gate: "\<not> ad_discard C p"
  shows "\<exists>r s' cs. ad_filter C X addr (Some p) rssi s = Some (r, s')
      \<and> calls s' = calls s @ cs
      \<and> length (filter is_lookup cs) = 1
      \<and> length (filter is_create cs) =
          (if \<not> valid_index C (fst (respond X (world s) (lcz_lwm2m_gw_obj_lookup_ble addr)))
              \<and> \<not> table_full s
           then 1 else 0)"
proof -
  obtain i s1 where res: "get_index C X addr True (INCR_STAT C accepted_ads s) = (i, s1)"
    by (cases "get_index C X addr True (INCR_STAT C accepted_ads s)") blast
  from get_index_calls_exact [of C X addr True "INCR_STAT C accepted_ads s"] res
  obtain cs1 where cs1: "calls s1 = calls s @ lcz_lwm2m_gw_obj_lookup_ble addr # cs1"
      "filter is_lookup cs1 = []"
      "length (filter is_create cs1) =
          (if \<not> valid_index C (fst (respond X (world s) (lcz_lwm2m_gw_obj_lookup_ble addr)))
              \<and> \<not> table_full s
           then 1 else 0)"
    by auto
  show ?thesis
  proof (cases "valid_index C i")
    case False
    then have "ad_filter C X addr (Some p) rssi s = Some (i, s1)"
      using gate by (simp add: ad_filter_def res)
    moreover have "length (filter is_lookup (lcz_lwm2m_gw_obj_lookup_ble addr # cs1)) = 1"
      by (simp add: cs1)
    moreover have "length (filter is_create (lcz_lwm2m_gw_obj_lookup_ble addr # cs1)) =
          (if \<not> valid_index C (fst (respond X (world s) (lcz_lwm2m_gw_obj_lookup_ble addr)))
              \<and> \<not> table_full s
           then 1 else 0)"
      using cs1(3) by simp
    ultimately show ?thesis using cs1(1) by blast
  next
    case valid: True
    show ?thesis
    proof (cases "id' p \<noteq> 0 \<and> id' p = last_event_id (table s ! nat i)
             \<and> recordType p = last_record_type (table s ! nat i)")
      case True
      have "ad_filter C X addr (Some p) rssi s = Some (i, INCR_STAT C indexed_ads s1)"
        using len gate res valid True by (rule ad_filter_duplicate)
      moreover have "calls (INCR_STAT C indexed_ads s1)
          = calls s @ (lcz_lwm2m_gw_obj_lookup_ble addr # cs1)"
        by (simp add: cs1)
      moreover have "length (filter is_lookup (lcz_lwm2m_gw_obj_lookup_ble addr # cs1)) = 1"
        by (simp add: cs1)
      moreover have "length (filter is_create (lcz_lwm2m_gw_obj_lookup_ble addr # cs1)) =
          (if \<not> valid_index C (fst (respond X (world s) (lcz_lwm2m_gw_obj_lookup_ble addr)))
              \<and> \<not> table_full s
           then 1 else 0)"
        using cs1(3) by simp
      ultimately show ?thesis by blast
    next
      case False
      obtain s' cs where run: "ad_filter C X addr (Some p) rssi s = Some (i, s')"
        and c: "calls s' = calls s1 @ cs @ [lcz_lwm2m_gw_obj_set_lifetime i (LIFETIME C)]"
        and nc: "filter is_create cs = []" "filter is_lookup cs = []"
        using ad_filter_fresh [OF len gate res valid False, of rssi] by blast
      let ?all = "lcz_lwm2m_gw_obj_lookup_ble addr # cs1 @ cs
                    @ [lcz_lwm2m_gw_obj_set_lifetime i (LIFETIME C)]"
      have "calls s' = calls s @ ?all"
        by (simp add: c cs1)
      moreover have "length (filter is_lookup ?all) = 1"
        by (simp add: cs1 nc)
      moreover have "length (filter is_create ?all) =
          (if \<not> valid_index C (fst (respond X (world s) (lcz_lwm2m_gw_obj_lookup_ble addr)))
              \<and> \<not> table_full s
           then 1 else 0)"
        using cs1(3) by (simp add: nc)
      ultimately show ?thesis using run by blast
    qed
  qed
qed

section \<open>Duplicate suppression (C1)\<close>

text \<open>
  C1. Once the type gate has passed and the index resolution has given a valid index
  \<open>i\<close>, \<open>ad_filter\<close> returns \<open>i\<close>, and it rejects the event as a duplicate exactly when
  the event id is not zero, equals \<open>last_event_id\<close> of slot \<open>i\<close>, and the record type
  equals \<open>last_record_type\<close> of slot \<open>i\<close>. A rejected event leaves the table as it
  was and adds no call after the index resolution (no sink call, no lifetime request).
  Any other event, and so every event with id 0, overwrites the two markers of slot
  \<open>i\<close> and ends with the lifetime request.
\<close>

theorem duplicate_event_filter:
  assumes len: "length (table s) = MAX_INSTANCES C"
    and gate: "\<not> ad_discard C p"
    and res: "get_index C X addr True (INCR_STAT C accepted_ads s) = (i, s1)"
    and valid: "valid_index C i"
  shows "\<exists>s'. ad_filter C X addr (Some p) rssi s = Some (i, s')
      \<and> (if id' p \<noteq> 0 \<and> id' p = last_event_id (table s ! nat i)
             \<and> recordType p = last_record_type (table s ! nat i)
          then table s' = table s \<and> calls s' = calls s1 \<and> world s' = world s1
          else last_event_id (table s' ! nat i) = id' p
             \<and> last_record_type (table s' ! nat i) = recordType p
             \<and> (\<exists>cs. calls s' = calls s1 @ cs @ [lcz_lwm2m_gw_obj_set_lifetime i (LIFETIME C)]))
      \<and> ((calls s' = calls s1) =
           (id' p \<noteq> 0 \<and> id' p = last_event_id (table s ! nat i)
             \<and> recordType p = last_record_type (table s ! nat i)))"
proof (cases "id' p \<noteq> 0 \<and> id' p = last_event_id (table s ! nat i)
             \<and> recordType p = last_record_type (table s ! nat i)")
  case True
  have t1: "table s1 = table s"
    using get_index_snd_facts(1) [OF res] by simp
  have "ad_filter C X addr (Some p) rssi s = Some (i, INCR_STAT C indexed_ads s1)"
    using len gate res valid True by (rule ad_filter_duplicate)
  then show ?thesis using True t1 by auto
next
  case False
  have inb: "nat i < length (table s)"
    using valid len by (simp add: valid_index_def nat_less_iff)
  obtain s' cs where run: "ad_filter C X addr (Some p) rssi s = Some (i, s')"
    and tb: "table s' = (table s)[nat i := (table s ! nat i)
                          \<lparr>last_event_id := id' p, last_record_type := recordType p\<rparr>]"
    and c: "calls s' = calls s1 @ cs @ [lcz_lwm2m_gw_obj_set_lifetime i (LIFETIME C)]"
    using ad_filter_fresh [OF len gate res valid False, of rssi] by blast
  have m: "last_event_id (table s' ! nat i) = id' p"
      "last_record_type (table s' ! nat i) = recordType p"
    using inb by (simp_all add: tb)
  have ne: "calls s' \<noteq> calls s1"
    using c by simp
  from run False c m ne show ?thesis by auto
qed

theorem duplicate_event_filter_witness:
  "length (table demo_state) = MAX_INSTANCES demo_config
   \<and> \<not> ad_discard demo_config repeat_event
   \<and> valid_index demo_config 0
   \<and> id' repeat_event = last_event_id (table demo_state ! 0)
   \<and> recordType repeat_event = last_record_type (table demo_state ! 0)
   \<and> (\<exists>s'. ad_filter demo_config demo_extern addr_A (Some repeat_event) 0 demo_state = Some (0, s')
         \<and> table s' = table demo_state
         \<and> calls s' = [lcz_lwm2m_gw_obj_lookup_ble addr_A])"
proof -
  have len: "length (table demo_state) = MAX_INSTANCES demo_config"
    by (simp add: demo_state_def demo_config_def)
  have gate: "\<not> ad_discard demo_config repeat_event"
    by (simp add: ad_discard_def repeat_event_def demo_config_def)
  have valid: "valid_index demo_config 0"
    by (simp add: valid_index_def demo_config_def)
  have same: "id' repeat_event = last_event_id (table demo_state ! 0)"
      "recordType repeat_event = last_record_type (table demo_state ! 0)"
      "id' repeat_event \<noteq> 0"
    by (simp_all add: repeat_event_def demo_state_def)
  from duplicate_event_filter [OF len gate demo_get_index_A(1) valid, of 0]
  show ?thesis using len gate valid same by (auto simp add: demo_get_index_A(2))
qed

section \<open>Battery events (C2)\<close>

text \<open>
  C2, as the code has it. With the battery category enabled, a battery event (good or
  bad) on a valid index makes exactly one battery sink call at sub-channel 0. For the
  BT510 family the voltage is the unsigned 16-bit payload divided by 1000 (3777 gives
  3.777) and the percentage is the BT510 curve at that voltage. For the BT6XX family
  the voltage is the 32-bit payload converted to \<open>uint32_t\<close> and divided by 1000, which
  is the signed reading divided by 1000 whenever that reading is not negative, and the
  percentage is the BT610 curve at that voltage. For any other product id the voltage
  and the percentage are 0, and the sink is still called.
\<close>

theorem battery_conversion:
  assumes labels: "switch_labels_distinct C"
    and on: "CONFIG_LCZ_LWM2M_BATTERY C"
    and batt: "uint (recordType p) = SENSOR_EVENT_BATTERY_GOOD C
             \<or> uint (recordType p) = SENSOR_EVENT_BATTERY_BAD C"
    and len: "length (table s) = MAX_INSTANCES C"
    and valid: "valid_index C idx"
  shows "\<exists>s'. ad_process C X idx p rssi s = Some s'
      \<and> (product_id (table s ! nat idx) = BT510_PRODUCT_ID C \<longrightarrow>
           calls s' = calls s @
             [lcz_lwm2m_managed_battery_set idx 0 (real (unat (u16 (data p))) / 1000)
                (lcz_lwm2m_battery_get_level_bt510 X (real (unat (u16 (data p))) / 1000))]
           \<and> (u16 (data p) = 3777 \<longrightarrow>
                calls s' = calls s @
                  [lcz_lwm2m_managed_battery_set idx 0 3.777
                     (lcz_lwm2m_battery_get_level_bt510 X 3.777)]))
      \<and> (product_id (table s ! nat idx) = BT6XX_PRODUCT_ID C \<longrightarrow>
           calls s' = calls s @
             [lcz_lwm2m_managed_battery_set idx 0 (real (unat (s32 (data p))) / 1000)
                (lcz_lwm2m_battery_get_level_bt610 X (real (unat (s32 (data p))) / 1000))]
           \<and> (0 \<le> sint (s32 (data p)) \<longrightarrow>
                real (unat (s32 (data p))) = real_of_int (sint (s32 (data p)))))
      \<and> (product_id (table s ! nat idx) \<noteq> BT510_PRODUCT_ID C
           \<and> product_id (table s ! nat idx) \<noteq> BT6XX_PRODUCT_ID C \<longrightarrow>
           calls s' = calls s @ [lcz_lwm2m_managed_battery_set idx 0 0 0])"
proof -
  have slot: "table_at s idx = Some (table s ! nat idx)"
    using valid len by (rule table_at_Some)
  have t: "uint (recordType p) \<noteq> SENSOR_EVENT_TEMPERATURE C"
      "uint (recordType p) \<noteq> SENSOR_EVENT_TEMPERATURE_1 C"
      "uint (recordType p) \<noteq> SENSOR_EVENT_TEMPERATURE_2 C"
      "uint (recordType p) \<noteq> SENSOR_EVENT_TEMPERATURE_3 C"
      "uint (recordType p) \<noteq> SENSOR_EVENT_TEMPERATURE_4 C"
    using labels batt by (auto simp add: switch_labels_distinct_def)
  have ids: "BT510_PRODUCT_ID C \<noteq> BT6XX_PRODUCT_ID C"
    using labels by (simp add: switch_labels_distinct_def)
  have sgn: "0 \<le> sint (s32 (data p)) \<longrightarrow>
      real (unat (s32 (data p))) = real_of_int (sint (s32 (data p)))"
  proof
    assume "0 \<le> sint (s32 (data p))"
    then have "uint (s32 (data p)) = sint (s32 (data p))"
      by (rule uint_eq_sint_nonneg)
    then have "real_of_int (uint (s32 (data p))) = real_of_int (sint (s32 (data p)))"
      by (rule arg_cong)
    then show "real (unat (s32 (data p))) = real_of_int (sint (s32 (data p)))"
      by simp
  qed
  have "\<exists>s'. ad_process C X idx p rssi s = Some s'
      \<and> calls s' = calls s @
          [lcz_lwm2m_managed_battery_set idx 0
             (fst (battery_convert C X (product_id (table s ! nat idx)) p))
             (snd (battery_convert C X (product_id (table s ! nat idx)) p))]"
    using on refl batt t slot by (rule ad_process_battery)
  then obtain s' where run: "ad_process C X idx p rssi s = Some s'"
    and c: "calls s' = calls s @
          [lcz_lwm2m_managed_battery_set idx 0
             (fst (battery_convert C X (product_id (table s ! nat idx)) p))
             (snd (battery_convert C X (product_id (table s ! nat idx)) p))]"
    by blast
  have c510: "product_id (table s ! nat idx) = BT510_PRODUCT_ID C \<Longrightarrow>
      battery_convert C X (product_id (table s ! nat idx)) p =
        (real (unat (u16 (data p))) / 1000,
         lcz_lwm2m_battery_get_level_bt510 X (real (unat (u16 (data p))) / 1000))"
    by (simp add: battery_convert_def Let_def unsigned_ucast_16_32)
  have c6xx: "product_id (table s ! nat idx) = BT6XX_PRODUCT_ID C \<Longrightarrow>
      battery_convert C X (product_id (table s ! nat idx)) p =
        (real (unat (s32 (data p))) / 1000,
         lcz_lwm2m_battery_get_level_bt610 X (real (unat (s32 (data p))) / 1000))"
    using ids by (simp add: battery_convert_def Let_def)
  have cother: "product_id (table s ! nat idx) \<noteq> BT510_PRODUCT_ID C
      \<Longrightarrow> product_id (table s ! nat idx) \<noteq> BT6XX_PRODUCT_ID C
      \<Longrightarrow> battery_convert C X (product_id (table s ! nat idx)) p = (0, 0)"
    by (simp add: battery_convert_def)
  have "product_id (table s ! nat idx) = BT510_PRODUCT_ID C \<longrightarrow>
           calls s' = calls s @
             [lcz_lwm2m_managed_battery_set idx 0 (real (unat (u16 (data p))) / 1000)
                (lcz_lwm2m_battery_get_level_bt510 X (real (unat (u16 (data p))) / 1000))]
           \<and> (u16 (data p) = 3777 \<longrightarrow>
                calls s' = calls s @
                  [lcz_lwm2m_managed_battery_set idx 0 3.777
                     (lcz_lwm2m_battery_get_level_bt510 X 3.777)])"
    using c510 by (auto simp add: c)
  moreover have "product_id (table s ! nat idx) = BT6XX_PRODUCT_ID C \<longrightarrow>
           calls s' = calls s @
             [lcz_lwm2m_managed_battery_set idx 0 (real (unat (s32 (data p))) / 1000)
                (lcz_lwm2m_battery_get_level_bt610 X (real (unat (s32 (data p))) / 1000))]
           \<and> (0 \<le> sint (s32 (data p)) \<longrightarrow>
                real (unat (s32 (data p))) = real_of_int (sint (s32 (data p))))"
    using c6xx sgn by (simp add: c)
  moreover have "product_id (table s ! nat idx) \<noteq> BT510_PRODUCT_ID C
           \<and> product_id (table s ! nat idx) \<noteq> BT6XX_PRODUCT_ID C \<longrightarrow>
           calls s' = calls s @ [lcz_lwm2m_managed_battery_set idx 0 0 0]"
    using cother by (simp add: c)
  ultimately show ?thesis using run by blast
qed

theorem battery_conversion_witness:
  "switch_labels_distinct demo_config
   \<and> CONFIG_LCZ_LWM2M_BATTERY demo_config
   \<and> uint (recordType battery_event) = SENSOR_EVENT_BATTERY_BAD demo_config
   \<and> length (table bt6xx_state) = MAX_INSTANCES demo_config
   \<and> valid_index demo_config 0 \<and> valid_index demo_config 1
   \<and> product_id (table bt6xx_state ! 0) = BT6XX_PRODUCT_ID demo_config
   \<and> product_id (table bt6xx_state ! 1) = BT510_PRODUCT_ID demo_config
   \<and> (\<exists>s'. ad_process demo_config demo_extern 0 battery_event 0 bt6xx_state = Some s'
         \<and> calls s' = [lcz_lwm2m_managed_battery_set 0 0 3.777 90])
   \<and> (\<exists>s'. ad_process demo_config demo_extern 1 battery_event 0 bt6xx_state = Some s'
         \<and> calls s' = [lcz_lwm2m_managed_battery_set 1 0 3.777 100])
   \<and> (\<exists>s'. ad_process demo_config demo_extern 0 battery_event 0 demo_state = Some s'
         \<and> calls s' = [lcz_lwm2m_managed_battery_set 0 0 0 0])"
proof -
  have labels: "switch_labels_distinct demo_config"
    by (simp add: switch_labels_distinct_def demo_config_def)
  have on: "CONFIG_LCZ_LWM2M_BATTERY demo_config"
    by (simp add: demo_config_def)
  have ty: "uint (recordType battery_event) = SENSOR_EVENT_BATTERY_BAD demo_config"
    by (simp add: battery_event_def demo_config_def)
  then have batt: "uint (recordType battery_event) = SENSOR_EVENT_BATTERY_GOOD demo_config
             \<or> uint (recordType battery_event) = SENSOR_EVENT_BATTERY_BAD demo_config"
    by simp
  have len: "length (table bt6xx_state) = MAX_INSTANCES demo_config"
      "length (table demo_state) = MAX_INSTANCES demo_config"
    by (simp_all add: bt6xx_state_def demo_state_def demo_config_def)
  have v: "valid_index demo_config 0" "valid_index demo_config 1"
    by (simp_all add: valid_index_def demo_config_def)
  have pid: "product_id (table bt6xx_state ! 0) = BT6XX_PRODUCT_ID demo_config"
      "product_id (table bt6xx_state ! 1) = BT510_PRODUCT_ID demo_config"
      "product_id (table demo_state ! 0) \<noteq> BT510_PRODUCT_ID demo_config"
      "product_id (table demo_state ! 0) \<noteq> BT6XX_PRODUCT_ID demo_config"
    by (simp_all add: bt6xx_state_def demo_state_def demo_config_def)
  have vals: "calls bt6xx_state = []" "calls demo_state = []"
      "u16 (data battery_event) = 3777" "s32 (data battery_event) = 3777"
      "lcz_lwm2m_battery_get_level_bt510 demo_extern 3.777 = 100"
      "lcz_lwm2m_battery_get_level_bt610 demo_extern 3.777 = 90"
    by (simp_all add: bt6xx_state_def demo_state_def battery_event_def demo_extern_def)
  from battery_conversion [OF labels on batt len(1) v(1), of demo_extern 0] pid vals
  have a: "\<exists>s'. ad_process demo_config demo_extern 0 battery_event 0 bt6xx_state = Some s'
         \<and> calls s' = [lcz_lwm2m_managed_battery_set 0 0 3.777 90]"
    by auto
  from battery_conversion [OF labels on batt len(1) v(2), of demo_extern 0] pid vals
  have b: "\<exists>s'. ad_process demo_config demo_extern 1 battery_event 0 bt6xx_state = Some s'
         \<and> calls s' = [lcz_lwm2m_managed_battery_set 1 0 3.777 100]"
    by auto
  from battery_conversion [OF labels on batt len(2) v(1), of demo_extern 0] pid vals
  have c: "\<exists>s'. ad_process demo_config demo_extern 0 battery_event 0 demo_state = Some s'
         \<and> calls s' = [lcz_lwm2m_managed_battery_set 0 0 0 0]"
    by auto
  from labels on ty len v pid a b c show ?thesis by blast
qed

text \<open>
  The claim as stated reads the BT6XX payload as a signed value. On a BT6XX slot, the
  payload with all 32 bits set is \<open>-1\<close> as a signed value, so the claim's voltage is
  \<open>-0.001\<close>; the code converts the payload to \<open>uint32_t\<close> first and the sink receives
  \<open>4294967.295\<close>.
\<close>

theorem battery_signed_reading_counterexample:
  "uint (recordType negative_battery_event) = SENSOR_EVENT_BATTERY_GOOD demo_config
   \<and> product_id (table bt6xx_state ! 0) = BT6XX_PRODUCT_ID demo_config
   \<and> real_of_int (sint (s32 (data negative_battery_event))) / 1000 = - 0.001
   \<and> (\<exists>s'. ad_process demo_config demo_extern 0 negative_battery_event 0 bt6xx_state = Some s'
         \<and> calls s' = [lcz_lwm2m_managed_battery_set 0 0 4294967.295 90])
   \<and> \<not> (\<exists>s' pct. ad_process demo_config demo_extern 0 negative_battery_event 0 bt6xx_state = Some s'
         \<and> calls s' = [lcz_lwm2m_managed_battery_set 0 0
               (real_of_int (sint (s32 (data negative_battery_event))) / 1000) pct])"
  by (simp add: run_defs demo_defs bt6xx_state_def negative_battery_event_def)

section \<open>The capacity-full latch (C3)\<close>

text \<open>
  C3. For an address the directory does not know: while \<open>table_full\<close> is clear, a
  creation that fails with \<open>-ENOMEM\<close> sets the flag and one that fails with \<open>-EPERM\<close>
  leaves it clear; while the flag is set, \<open>get_index\<close> with creation allowed returns an
  invalid index after the lookup alone, with no call of the create operation. A set
  flag stays set through \<open>get_index\<close>, \<open>ad_filter\<close>, \<open>ad_process\<close>, \<open>rsp_handler\<close>,
  \<open>name_handler\<close>, \<open>ad_handler\<close> and a removal notification with an invalid index; a
  removal notification with a valid index clears it.
\<close>

theorem capacity_full_latch:
  assumes len: "length (table s) = MAX_INSTANCES C"
  shows "(\<not> valid_index C (fst (respond X (world s) (lcz_lwm2m_gw_obj_lookup_ble addr)))
            \<and> \<not> table_full s
            \<and> fst (respond X (snd (respond X (world s) (lcz_lwm2m_gw_obj_lookup_ble addr)))
                      (lcz_lwm2m_gw_obj_create addr)) = - ENOMEM
          \<longrightarrow> table_full (snd (get_index C X addr True s)))
       \<and> (\<not> valid_index C (fst (respond X (world s) (lcz_lwm2m_gw_obj_lookup_ble addr)))
            \<and> \<not> table_full s
            \<and> fst (respond X (snd (respond X (world s) (lcz_lwm2m_gw_obj_lookup_ble addr)))
                      (lcz_lwm2m_gw_obj_create addr)) = - EPERM
          \<longrightarrow> \<not> table_full (snd (get_index C X addr True s)))
       \<and> (\<not> valid_index C (fst (respond X (world s) (lcz_lwm2m_gw_obj_lookup_ble addr)))
            \<and> table_full s
          \<longrightarrow> \<not> valid_index C (fst (get_index C X addr True s))
            \<and> calls (snd (get_index C X addr True s)) = calls s @ [lcz_lwm2m_gw_obj_lookup_ble addr]
            \<and> table_full (snd (get_index C X addr True s)))
       \<and> (table_full s
          \<longrightarrow> table_full (snd (get_index C X addr add s))
            \<and> table_full (name_handler C X idx ad s)
            \<and> (\<forall>r s'. ad_filter C X addr p_opt rssi s = Some (r, s') \<longrightarrow> table_full s')
            \<and> (\<forall>r s'. rsp_handler C X addr r_opt s = Some (r, s') \<longrightarrow> table_full s')
            \<and> (\<forall>s'. ad_process C X idx p rssi s = Some s' \<longrightarrow> table_full s')
            \<and> (\<forall>s'. ad_handler C X addr rssi adv_type ad s = Some s' \<longrightarrow> table_full s')
            \<and> (\<not> valid_index C idx \<longrightarrow> gw_obj_removed C idx s = Some (0, s)))
       \<and> (valid_index C idx
          \<longrightarrow> (\<exists>s'. gw_obj_removed C idx s = Some (0, s') \<and> \<not> table_full s'))"
proof -
  have a: "\<not> valid_index C (fst (respond X (world s) (lcz_lwm2m_gw_obj_lookup_ble addr)))
            \<and> \<not> table_full s
            \<and> fst (respond X (snd (respond X (world s) (lcz_lwm2m_gw_obj_lookup_ble addr)))
                      (lcz_lwm2m_gw_obj_create addr)) = - ENOMEM
          \<longrightarrow> table_full (snd (get_index C X addr True s))"
    by (simp add: get_index_def Let_def split_beta)
  have b: "\<not> valid_index C (fst (respond X (world s) (lcz_lwm2m_gw_obj_lookup_ble addr)))
            \<and> \<not> table_full s
            \<and> fst (respond X (snd (respond X (world s) (lcz_lwm2m_gw_obj_lookup_ble addr)))
                      (lcz_lwm2m_gw_obj_create addr)) = - EPERM
          \<longrightarrow> \<not> table_full (snd (get_index C X addr True s))"
    by (simp add: get_index_def Let_def split_beta EPERM_def ENOMEM_def)
  have c: "\<not> valid_index C (fst (respond X (world s) (lcz_lwm2m_gw_obj_lookup_ble addr)))
            \<and> table_full s
          \<longrightarrow> \<not> valid_index C (fst (get_index C X addr True s))
            \<and> calls (snd (get_index C X addr True s)) = calls s @ [lcz_lwm2m_gw_obj_lookup_ble addr]
            \<and> table_full (snd (get_index C X addr True s))"
    by (simp add: get_index_def Let_def split_beta valid_index_def EPERM_def)
  have d: "table_full s
          \<longrightarrow> table_full (snd (get_index C X addr add s))
            \<and> table_full (name_handler C X idx ad s)
            \<and> (\<forall>r s'. ad_filter C X addr p_opt rssi s = Some (r, s') \<longrightarrow> table_full s')
            \<and> (\<forall>r s'. rsp_handler C X addr r_opt s = Some (r, s') \<longrightarrow> table_full s')
            \<and> (\<forall>s'. ad_process C X idx p rssi s = Some s' \<longrightarrow> table_full s')
            \<and> (\<forall>s'. ad_handler C X addr rssi adv_type ad s = Some s' \<longrightarrow> table_full s')
            \<and> (\<not> valid_index C idx \<longrightarrow> gw_obj_removed C idx s = Some (0, s))"
    using get_index_table_full_mono [of s C X addr add] name_handler_frame(2) [of C X idx ad s]
      ad_filter_keeps_flag [OF len] rsp_handler_keeps_flag [OF len]
      ad_process_frame(2) [of C X idx p rssi s] ad_handler_summary [OF len]
      gw_obj_removed_invalid [of C idx s]
    by blast
  have e: "valid_index C idx
          \<longrightarrow> (\<exists>s'. gw_obj_removed C idx s = Some (0, s') \<and> \<not> table_full s')"
    using gw_obj_removed_valid [OF _ len, of idx] by simp
  from a b c d e show ?thesis by blast
qed

theorem capacity_full_latch_witness:
  "length (table crowded_state) = MAX_INSTANCES demo_config
   \<and> fst (respond demo_extern (world crowded_state) (lcz_lwm2m_gw_obj_lookup_ble addr_B)) = - 2
   \<and> fst (respond demo_extern (world crowded_state) (lcz_lwm2m_gw_obj_create addr_B)) = - 12
   \<and> table_full (snd (get_index demo_config demo_extern addr_B True crowded_state))
   \<and> fst (respond demo_extern (world blocking_state) (lcz_lwm2m_gw_obj_create addr_B)) = - 1
   \<and> \<not> table_full (snd (get_index demo_config demo_extern addr_B True blocking_state))
   \<and> table_full freed_state
   \<and> fst (get_index demo_config demo_extern addr_B True freed_state) = - 2
   \<and> calls (snd (get_index demo_config demo_extern addr_B True freed_state))
       = [lcz_lwm2m_gw_obj_lookup_ble addr_B]
   \<and> table_full (snd (get_index demo_config demo_extern addr_B True freed_state))
   \<and> (\<exists>s'. gw_obj_removed demo_config 0 freed_state = Some (0, s') \<and> \<not> table_full s')"
proof -
  have len: "length (table crowded_state) = MAX_INSTANCES demo_config"
      "length (table blocking_state) = MAX_INSTANCES demo_config"
      "length (table freed_state) = MAX_INSTANCES demo_config"
    by (simp_all add: crowded_state_def blocking_state_def freed_state_def demo_defs)
  have r1: "fst (respond demo_extern (world crowded_state) (lcz_lwm2m_gw_obj_lookup_ble addr_B)) = - 2"
      "fst (respond demo_extern (world crowded_state) (lcz_lwm2m_gw_obj_create addr_B)) = - 12"
      "snd (respond demo_extern (world crowded_state) (lcz_lwm2m_gw_obj_lookup_ble addr_B))
         = world crowded_state"
      "\<not> table_full crowded_state"
    by (simp_all add: crowded_state_def demo_defs ENOMEM_def)
  have r2: "fst (respond demo_extern (world blocking_state) (lcz_lwm2m_gw_obj_lookup_ble addr_B)) = - 2"
      "fst (respond demo_extern (world blocking_state) (lcz_lwm2m_gw_obj_create addr_B)) = - 1"
      "snd (respond demo_extern (world blocking_state) (lcz_lwm2m_gw_obj_lookup_ble addr_B))
         = world blocking_state"
      "\<not> table_full blocking_state"
    by (simp_all add: blocking_state_def demo_defs EPERM_def)
  have r3: "fst (respond demo_extern (world freed_state) (lcz_lwm2m_gw_obj_lookup_ble addr_B)) = - 2"
      "table_full freed_state" "calls freed_state = []"
      "fst (get_index demo_config demo_extern addr_B True freed_state) = - 2"
    by (simp_all add: freed_state_def demo_defs get_index_def ext_call_def valid_index_def Let_def)
  have v: "\<not> valid_index demo_config (- 2)" "valid_index demo_config 0"
    by (simp_all add: valid_index_def demo_config_def)
  from capacity_full_latch [OF len(1), where X = demo_extern and addr = addr_B] r1 v
  have w1: "table_full (snd (get_index demo_config demo_extern addr_B True crowded_state))"
    by (simp add: ENOMEM_def)
  from capacity_full_latch [OF len(2), where X = demo_extern and addr = addr_B] r2 v
  have w2: "\<not> table_full (snd (get_index demo_config demo_extern addr_B True blocking_state))"
    by (simp add: EPERM_def)
  from capacity_full_latch [OF len(3), where X = demo_extern and addr = addr_B and idx = 0] r3 v
  have w3: "calls (snd (get_index demo_config demo_extern addr_B True freed_state))
       = [lcz_lwm2m_gw_obj_lookup_ble addr_B]
     \<and> table_full (snd (get_index demo_config demo_extern addr_B True freed_state))
     \<and> (\<exists>s'. gw_obj_removed demo_config 0 freed_state = Some (0, s') \<and> \<not> table_full s')"
    by simp
  from len r1 r2 r3 w1 w2 w3 show ?thesis by simp
qed

section \<open>The record-type gate (C4)\<close>

text \<open>
  C4. An event whose record type is none of the known codes, or belongs to a
  measurement category that is switched off, is rejected by \<open>ad_filter\<close> with
  \<open>-EPERM\<close> and the state after the call is the state before it: no directory lookup
  or creation is logged, the capacity-full flag and every table slot are unchanged.
\<close>

theorem discarded_event_touches_nothing:
  assumes "switch_labels_distinct C"
    and "uint (recordType p) \<notin>
           {SENSOR_EVENT_TEMPERATURE C, SENSOR_EVENT_BATTERY_GOOD C, SENSOR_EVENT_BATTERY_BAD C,
            SENSOR_EVENT_TEMPERATURE_1 C, SENSOR_EVENT_TEMPERATURE_2 C,
            SENSOR_EVENT_TEMPERATURE_3 C, SENSOR_EVENT_TEMPERATURE_4 C,
            SENSOR_EVENT_CURRENT_1 C, SENSOR_EVENT_CURRENT_2 C,
            SENSOR_EVENT_CURRENT_3 C, SENSOR_EVENT_CURRENT_4 C,
            SENSOR_EVENT_PRESSURE_1 C, SENSOR_EVENT_PRESSURE_2 C, SENSOR_EVENT_ULTRASONIC_1 C}
         \<or> uint (recordType p) \<in>
           {SENSOR_EVENT_TEMPERATURE C, SENSOR_EVENT_TEMPERATURE_1 C, SENSOR_EVENT_TEMPERATURE_2 C,
            SENSOR_EVENT_TEMPERATURE_3 C, SENSOR_EVENT_TEMPERATURE_4 C}
           \<and> \<not> CONFIG_LCZ_LWM2M_TEMPERATURE C
         \<or> uint (recordType p) \<in> {SENSOR_EVENT_BATTERY_GOOD C, SENSOR_EVENT_BATTERY_BAD C}
           \<and> \<not> CONFIG_LCZ_LWM2M_BATTERY C
         \<or> uint (recordType p) \<in>
           {SENSOR_EVENT_CURRENT_1 C, SENSOR_EVENT_CURRENT_2 C,
            SENSOR_EVENT_CURRENT_3 C, SENSOR_EVENT_CURRENT_4 C}
           \<and> \<not> CONFIG_LCZ_LWM2M_CURRENT C
         \<or> uint (recordType p) \<in> {SENSOR_EVENT_PRESSURE_1 C, SENSOR_EVENT_PRESSURE_2 C}
           \<and> \<not> CONFIG_LCZ_LWM2M_PRESSURE C
         \<or> uint (recordType p) = SENSOR_EVENT_ULTRASONIC_1 C
           \<and> \<not> CONFIG_LCZ_LWM2M_FILL_LEVEL C"
  shows "ad_filter C X addr (Some p) rssi s = Some (- EPERM, s)"
proof -
  have "ad_discard C p"
    using assms(2)
  proof
    assume "uint (recordType p) \<notin>
           {SENSOR_EVENT_TEMPERATURE C, SENSOR_EVENT_BATTERY_GOOD C, SENSOR_EVENT_BATTERY_BAD C,
            SENSOR_EVENT_TEMPERATURE_1 C, SENSOR_EVENT_TEMPERATURE_2 C,
            SENSOR_EVENT_TEMPERATURE_3 C, SENSOR_EVENT_TEMPERATURE_4 C,
            SENSOR_EVENT_CURRENT_1 C, SENSOR_EVENT_CURRENT_2 C,
            SENSOR_EVENT_CURRENT_3 C, SENSOR_EVENT_CURRENT_4 C,
            SENSOR_EVENT_PRESSURE_1 C, SENSOR_EVENT_PRESSURE_2 C, SENSOR_EVENT_ULTRASONIC_1 C}"
    then show ?thesis by (rule ad_discard_unknown)
  next
    assume "uint (recordType p) \<in>
           {SENSOR_EVENT_TEMPERATURE C, SENSOR_EVENT_TEMPERATURE_1 C, SENSOR_EVENT_TEMPERATURE_2 C,
            SENSOR_EVENT_TEMPERATURE_3 C, SENSOR_EVENT_TEMPERATURE_4 C}
           \<and> \<not> CONFIG_LCZ_LWM2M_TEMPERATURE C
         \<or> uint (recordType p) \<in> {SENSOR_EVENT_BATTERY_GOOD C, SENSOR_EVENT_BATTERY_BAD C}
           \<and> \<not> CONFIG_LCZ_LWM2M_BATTERY C
         \<or> uint (recordType p) \<in>
           {SENSOR_EVENT_CURRENT_1 C, SENSOR_EVENT_CURRENT_2 C,
            SENSOR_EVENT_CURRENT_3 C, SENSOR_EVENT_CURRENT_4 C}
           \<and> \<not> CONFIG_LCZ_LWM2M_CURRENT C
         \<or> uint (recordType p) \<in> {SENSOR_EVENT_PRESSURE_1 C, SENSOR_EVENT_PRESSURE_2 C}
           \<and> \<not> CONFIG_LCZ_LWM2M_PRESSURE C
         \<or> uint (recordType p) = SENSOR_EVENT_ULTRASONIC_1 C
           \<and> \<not> CONFIG_LCZ_LWM2M_FILL_LEVEL C"
    with assms(1) show ?thesis by (rule ad_discard_disabled)
  qed
  then show ?thesis by (simp add: ad_filter_def)
qed

theorem discarded_event_touches_nothing_witness:
  "switch_labels_distinct demo_config
   \<and> uint (recordType pressure_event) = SENSOR_EVENT_PRESSURE_1 demo_config
   \<and> \<not> CONFIG_LCZ_LWM2M_PRESSURE demo_config
   \<and> ad_filter demo_config demo_extern addr_B (Some pressure_event) 0 demo_state
       = Some (- 1, demo_state)"
proof -
  have d: "switch_labels_distinct demo_config"
    by (simp add: switch_labels_distinct_def demo_config_def)
  have t: "uint (recordType pressure_event) = SENSOR_EVENT_PRESSURE_1 demo_config"
    by (simp add: pressure_event_def demo_config_def)
  have off: "\<not> CONFIG_LCZ_LWM2M_PRESSURE demo_config"
    by (simp add: demo_config_def)
  from discarded_event_touches_nothing [where C = demo_config and p = pressure_event
      and X = demo_extern and addr = addr_B and rssi = 0 and s = demo_state, OF d] t off
  have "ad_filter demo_config demo_extern addr_B (Some pressure_event) 0 demo_state
       = Some (- EPERM, demo_state)"
    by simp
  with d t off show ?thesis by (simp add: EPERM_def)
qed

section \<open>Scan responses and coded frames (C5)\<close>

text \<open>
  C5, as the code has it. \<open>rsp_handler\<close> resolves the address with creation
  disallowed: its only directory call is one lookup, and the index it returns is the
  directory's answer to that lookup (\<open>-EPERM\<close> for an answer at or above
  \<open>MAX_INSTANCES\<close>). When that index is not negative, the response's product id is
  stored in that slot and in no other; otherwise the table is unchanged. So a
  successful resolution stores the product id in the resolved slot, and a frame of the
  scan-response shape makes one lookup and no create call.

  For a frame of the coded shape, \<open>ad_handler\<close> runs \<open>ad_filter\<close> on the embedded
  event, then \<open>rsp_handler\<close> on the embedded scan response, then \<open>name_handler\<close>.
  When the embedded event passes the type gate the event path makes exactly one
  resolution with creation allowed, and the run has two lookups; when the gate rejects
  the event the event path makes no directory call at all, and the run has the scan
  response's lookup alone. The run makes one create call exactly when the event
  passes the gate, its lookup misses and the capacity-full flag is clear, and none
  otherwise; it never makes two.
\<close>

theorem scan_response_never_creates:
  assumes len: "length (table s) = MAX_INSTANCES C"
  shows "(\<exists>i s'. rsp_handler C X addr (Some q) s = Some (i, s')
            \<and> i = (if int (MAX_INSTANCES C)
                         \<le> fst (respond X (world s) (lcz_lwm2m_gw_obj_lookup_ble addr))
                    then - EPERM
                    else fst (respond X (world s) (lcz_lwm2m_gw_obj_lookup_ble addr)))
            \<and> calls s' = calls s @ [lcz_lwm2m_gw_obj_lookup_ble addr]
            \<and> table_full s' = table_full s
            \<and> (if 0 \<le> i
                then table s' = (table s)[nat i := (table s ! nat i)
                                   \<lparr>product_id := uint (productId q)\<rparr>]
                else table s' = table s)
            \<and> (valid_index C (fst (respond X (world s) (lcz_lwm2m_gw_obj_lookup_ble addr)))
                 \<longrightarrow> i = fst (respond X (world s) (lcz_lwm2m_gw_obj_lookup_ble addr))
                   \<and> product_id (table s' ! nat i) = uint (productId q)))
       \<and> (\<not> lcz_sensor_adv_match_1m X (AdFind_Type X ad)
            \<and> \<not> lcz_sensor_adv_match_coded X (AdFind_Type X ad)
            \<and> lcz_sensor_adv_match_rsp X (AdFind_Type X ad)
            \<and> AdFind_Type X ad = Some payload
          \<longrightarrow> (\<exists>s' cs. ad_handler C X addr rssi adv_type ad s = Some s'
                 \<and> calls s' = calls s @ cs
                 \<and> filter is_create cs = []
                 \<and> length (filter is_lookup cs) = 1))
       \<and> (\<not> lcz_sensor_adv_match_1m X (AdFind_Type X ad)
            \<and> lcz_sensor_adv_match_coded X (AdFind_Type X ad)
            \<and> AdFind_Type X ad = Some payload
            \<and> as_LczSensorAdCoded X payload = (e, q)
          \<longrightarrow> (\<exists>i1 s1 i2 s2 cs.
                 ad_filter C X addr (Some e) rssi (INCR_STAT C coded_ads (INCR_STAT C ads s))
                   = Some (i1, s1)
               \<and> (ad_discard C e \<longrightarrow> s1 = INCR_STAT C coded_ads (INCR_STAT C ads s))
               \<and> rsp_handler C X addr (Some q) s1 = Some (i2, s2)
               \<and> i2 = (if int (MAX_INSTANCES C)
                            \<le> fst (respond X (world s1) (lcz_lwm2m_gw_obj_lookup_ble addr))
                        then - EPERM
                        else fst (respond X (world s1) (lcz_lwm2m_gw_obj_lookup_ble addr)))
               \<and> (0 \<le> i2 \<longrightarrow> product_id (table s2 ! nat i2) = uint (productId q))
               \<and> calls s2 = calls s1 @ [lcz_lwm2m_gw_obj_lookup_ble addr]
               \<and> ad_handler C X addr rssi adv_type ad s = Some (name_handler C X i2 ad s2)
               \<and> calls (name_handler C X i2 ad s2) = calls s @ cs
               \<and> length (filter is_lookup cs) = (if ad_discard C e then 1 else 2)
               \<and> length (filter is_create cs) =
                   (if \<not> ad_discard C e
                       \<and> \<not> valid_index C
                             (fst (respond X (world s) (lcz_lwm2m_gw_obj_lookup_ble addr)))
                       \<and> \<not> table_full s
                    then 1 else 0)))"
proof -
  have rsp: "\<exists>i s'. rsp_handler C X addr (Some q) t = Some (i, s')
            \<and> i = (if int (MAX_INSTANCES C)
                         \<le> fst (respond X (world t) (lcz_lwm2m_gw_obj_lookup_ble addr))
                    then - EPERM
                    else fst (respond X (world t) (lcz_lwm2m_gw_obj_lookup_ble addr)))
            \<and> calls s' = calls t @ [lcz_lwm2m_gw_obj_lookup_ble addr]
            \<and> table_full s' = table_full t
            \<and> (if 0 \<le> i
                then table s' = (table t)[nat i := (table t ! nat i)
                                   \<lparr>product_id := uint (productId q)\<rparr>]
                else table s' = table t)
            \<and> (0 \<le> i \<longrightarrow> product_id (table s' ! nat i) = uint (productId q))
            \<and> (valid_index C (fst (respond X (world t) (lcz_lwm2m_gw_obj_lookup_ble addr)))
                 \<longrightarrow> i = fst (respond X (world t) (lcz_lwm2m_gw_obj_lookup_ble addr))
                   \<and> product_id (table s' ! nat i) = uint (productId q))"
    if lt: "length (table t) = MAX_INSTANCES C" for t
  proof -
    from rsp_handler_Some [OF lt, of X addr q]
    obtain i s' where run: "rsp_handler C X addr (Some q) t = Some (i, s')"
      and i: "i = fst (get_index C X addr False t)"
      and c: "calls s' = calls t @ [lcz_lwm2m_gw_obj_lookup_ble addr]"
      and fl: "table_full s' = table_full t"
      and tb: "if 0 \<le> i
          then table s' = (table t)[nat i := (table t ! nat i)\<lparr>product_id := uint (productId q)\<rparr>]
          else table s' = table t"
      by blast
    have i': "i = (if int (MAX_INSTANCES C)
                         \<le> fst (respond X (world t) (lcz_lwm2m_gw_obj_lookup_ble addr))
                    then - EPERM
                    else fst (respond X (world t) (lcz_lwm2m_gw_obj_lookup_ble addr)))"
      unfolding i by (simp add: get_index_no_add Let_def)
    have "i < int (MAX_INSTANCES C)"
      unfolding i by (rule get_index_bound)
    then have st: "0 \<le> i \<longrightarrow> product_id (table s' ! nat i) = uint (productId q)"
      using tb lt by (simp add: nat_less_iff)
    have ok: "valid_index C (fst (respond X (world t) (lcz_lwm2m_gw_obj_lookup_ble addr)))
                 \<longrightarrow> i = fst (respond X (world t) (lcz_lwm2m_gw_obj_lookup_ble addr))
                   \<and> product_id (table s' ! nat i) = uint (productId q)"
      using i' st by (auto simp add: valid_index_def)
    from run i' c fl tb st ok show ?thesis by blast
  qed
  have a: "\<exists>i s'. rsp_handler C X addr (Some q) s = Some (i, s')
            \<and> i = (if int (MAX_INSTANCES C)
                         \<le> fst (respond X (world s) (lcz_lwm2m_gw_obj_lookup_ble addr))
                    then - EPERM
                    else fst (respond X (world s) (lcz_lwm2m_gw_obj_lookup_ble addr)))
            \<and> calls s' = calls s @ [lcz_lwm2m_gw_obj_lookup_ble addr]
            \<and> table_full s' = table_full s
            \<and> (if 0 \<le> i
                then table s' = (table s)[nat i := (table s ! nat i)
                                   \<lparr>product_id := uint (productId q)\<rparr>]
                else table s' = table s)
            \<and> (valid_index C (fst (respond X (world s) (lcz_lwm2m_gw_obj_lookup_ble addr)))
                 \<longrightarrow> i = fst (respond X (world s) (lcz_lwm2m_gw_obj_lookup_ble addr))
                   \<and> product_id (table s' ! nat i) = uint (productId q))"
    using rsp [OF len] by blast
  have b: "\<not> lcz_sensor_adv_match_1m X (AdFind_Type X ad)
            \<and> \<not> lcz_sensor_adv_match_coded X (AdFind_Type X ad)
            \<and> lcz_sensor_adv_match_rsp X (AdFind_Type X ad)
            \<and> AdFind_Type X ad = Some payload
          \<longrightarrow> (\<exists>s' cs. ad_handler C X addr rssi adv_type ad s = Some s'
                 \<and> calls s' = calls s @ cs
                 \<and> filter is_create cs = []
                 \<and> length (filter is_lookup cs) = 1)"
  proof (intro impI, elim conjE)
    assume m: "\<not> lcz_sensor_adv_match_1m X (AdFind_Type X ad)"
        "\<not> lcz_sensor_adv_match_coded X (AdFind_Type X ad)"
        "lcz_sensor_adv_match_rsp X (AdFind_Type X ad)"
      and h: "AdFind_Type X ad = Some payload"
    from ad_handler_rsp [OF len m h, of addr rssi adv_type]
    obtain i2 s2 where g: "rsp_handler C X addr (Some (as_LczSensorRspWithHeader X payload))
             (INCR_STAT C rsp_ads (INCR_STAT C ads s)) = Some (i2, s2)"
      and run: "ad_handler C X addr rssi adv_type ad s = Some (name_handler C X i2 ad s2)"
      by blast
    have l0: "length (table (INCR_STAT C rsp_ads (INCR_STAT C ads s))) = MAX_INSTANCES C"
      using len by simp
    from rsp_handler_Some [OF l0, of X addr "as_LczSensorRspWithHeader X payload"] g
    have c2: "calls s2 = calls s @ [lcz_lwm2m_gw_obj_lookup_ble addr]"
      by auto
    obtain ns where ns: "calls (name_handler C X i2 ad s2) = calls s2 @ ns"
        "filter is_create ns = []" "filter is_lookup ns = []"
      using name_handler_frame(3) [of C X i2 ad s2] by blast
    have "calls (name_handler C X i2 ad s2) = calls s @ (lcz_lwm2m_gw_obj_lookup_ble addr # ns)"
      by (simp add: ns c2)
    moreover have "filter is_create (lcz_lwm2m_gw_obj_lookup_ble addr # ns) = []"
      by (simp add: ns)
    moreover have "length (filter is_lookup (lcz_lwm2m_gw_obj_lookup_ble addr # ns)) = 1"
      by (simp add: ns)
    ultimately show "\<exists>s' cs. ad_handler C X addr rssi adv_type ad s = Some s'
                 \<and> calls s' = calls s @ cs
                 \<and> filter is_create cs = []
                 \<and> length (filter is_lookup cs) = 1"
      using run by blast
  qed
  have c: "\<not> lcz_sensor_adv_match_1m X (AdFind_Type X ad)
            \<and> lcz_sensor_adv_match_coded X (AdFind_Type X ad)
            \<and> AdFind_Type X ad = Some payload
            \<and> as_LczSensorAdCoded X payload = (e, q)
          \<longrightarrow> (\<exists>i1 s1 i2 s2 cs.
                 ad_filter C X addr (Some e) rssi (INCR_STAT C coded_ads (INCR_STAT C ads s))
                   = Some (i1, s1)
               \<and> (ad_discard C e \<longrightarrow> s1 = INCR_STAT C coded_ads (INCR_STAT C ads s))
               \<and> rsp_handler C X addr (Some q) s1 = Some (i2, s2)
               \<and> i2 = (if int (MAX_INSTANCES C)
                            \<le> fst (respond X (world s1) (lcz_lwm2m_gw_obj_lookup_ble addr))
                        then - EPERM
                        else fst (respond X (world s1) (lcz_lwm2m_gw_obj_lookup_ble addr)))
               \<and> (0 \<le> i2 \<longrightarrow> product_id (table s2 ! nat i2) = uint (productId q))
               \<and> calls s2 = calls s1 @ [lcz_lwm2m_gw_obj_lookup_ble addr]
               \<and> ad_handler C X addr rssi adv_type ad s = Some (name_handler C X i2 ad s2)
               \<and> calls (name_handler C X i2 ad s2) = calls s @ cs
               \<and> length (filter is_lookup cs) = (if ad_discard C e then 1 else 2)
               \<and> length (filter is_create cs) =
                   (if \<not> ad_discard C e
                       \<and> \<not> valid_index C
                             (fst (respond X (world s) (lcz_lwm2m_gw_obj_lookup_ble addr)))
                       \<and> \<not> table_full s
                    then 1 else 0))"
  proof (intro impI, elim conjE)
    assume m: "\<not> lcz_sensor_adv_match_1m X (AdFind_Type X ad)"
        "lcz_sensor_adv_match_coded X (AdFind_Type X ad)"
      and h: "AdFind_Type X ad = Some payload"
      and cd: "as_LczSensorAdCoded X payload = (e, q)"
    let ?s0 = "INCR_STAT C coded_ads (INCR_STAT C ads s)"
    let ?miss = "\<not> valid_index C (fst (respond X (world s) (lcz_lwm2m_gw_obj_lookup_ble addr)))
                 \<and> \<not> table_full s"
    from ad_handler_coded [OF len m h cd, of addr rssi adv_type]
    obtain i1 s1 i2 s2 where f: "ad_filter C X addr (Some e) rssi ?s0 = Some (i1, s1)"
      and g: "rsp_handler C X addr (Some q) s1 = Some (i2, s2)"
      and run: "ad_handler C X addr rssi adv_type ad s = Some (name_handler C X i2 ad s2)"
      and len1: "length (table s1) = MAX_INSTANCES C"
      by blast
    have l0: "length (table ?s0) = MAX_INSTANCES C"
      using len by simp
    have ev: "\<exists>cs1. calls s1 = calls s @ cs1
        \<and> length (filter is_lookup cs1) = (if ad_discard C e then 0 else 1)
        \<and> length (filter is_create cs1) = (if \<not> ad_discard C e \<and> ?miss then 1 else 0)
        \<and> (ad_discard C e \<longrightarrow> s1 = ?s0)"
    proof (cases "ad_discard C e")
      case True
      then have "s1 = ?s0"
        using f by (simp add: ad_filter_def)
      with True show ?thesis by simp
    next
      case False
      from ad_filter_passed_counts [OF l0 False, of X addr rssi] f
      show ?thesis using False by auto
    qed
    then obtain cs1 where cs1: "calls s1 = calls s @ cs1"
        "length (filter is_lookup cs1) = (if ad_discard C e then 0 else 1)"
        "length (filter is_create cs1) = (if \<not> ad_discard C e \<and> ?miss then 1 else 0)"
        "ad_discard C e \<longrightarrow> s1 = ?s0"
      by blast
    from rsp [OF len1] g
    have i2: "i2 = (if int (MAX_INSTANCES C)
                            \<le> fst (respond X (world s1) (lcz_lwm2m_gw_obj_lookup_ble addr))
                        then - EPERM
                        else fst (respond X (world s1) (lcz_lwm2m_gw_obj_lookup_ble addr)))"
      and st: "0 \<le> i2 \<longrightarrow> product_id (table s2 ! nat i2) = uint (productId q)"
      and c2: "calls s2 = calls s1 @ [lcz_lwm2m_gw_obj_lookup_ble addr]"
      by auto
    obtain ns where ns: "calls (name_handler C X i2 ad s2) = calls s2 @ ns"
        "filter is_create ns = []" "filter is_lookup ns = []"
      using name_handler_frame(3) [of C X i2 ad s2] by blast
    let ?all = "cs1 @ lcz_lwm2m_gw_obj_lookup_ble addr # ns"
    have k1: "calls (name_handler C X i2 ad s2) = calls s @ ?all"
      by (simp add: ns c2 cs1)
    have k2: "length (filter is_lookup ?all) = (if ad_discard C e then 1 else 2)"
      using cs1(2) by (simp add: ns)
    have k3: "length (filter is_create ?all) = (if \<not> ad_discard C e \<and> ?miss then 1 else 0)"
      using cs1(3) by (simp add: ns)
    from f cs1(4) g i2 st c2 run k1 k2 k3
    show "\<exists>i1 s1 i2 s2 cs.
                 ad_filter C X addr (Some e) rssi ?s0 = Some (i1, s1)
               \<and> (ad_discard C e \<longrightarrow> s1 = ?s0)
               \<and> rsp_handler C X addr (Some q) s1 = Some (i2, s2)
               \<and> i2 = (if int (MAX_INSTANCES C)
                            \<le> fst (respond X (world s1) (lcz_lwm2m_gw_obj_lookup_ble addr))
                        then - EPERM
                        else fst (respond X (world s1) (lcz_lwm2m_gw_obj_lookup_ble addr)))
               \<and> (0 \<le> i2 \<longrightarrow> product_id (table s2 ! nat i2) = uint (productId q))
               \<and> calls s2 = calls s1 @ [lcz_lwm2m_gw_obj_lookup_ble addr]
               \<and> ad_handler C X addr rssi adv_type ad s = Some (name_handler C X i2 ad s2)
               \<and> calls (name_handler C X i2 ad s2) = calls s @ cs
               \<and> length (filter is_lookup cs) = (if ad_discard C e then 1 else 2)
               \<and> length (filter is_create cs) =
                   (if \<not> ad_discard C e \<and> ?miss then 1 else 0)"
      by blast
  qed
  from a b c show ?thesis by blast
qed

theorem scan_response_never_creates_witness:
  "length (table demo_state) = MAX_INSTANCES demo_config
   \<and> \<not> lcz_sensor_adv_match_1m demo_extern (AdFind_Type demo_extern coded_frame)
   \<and> lcz_sensor_adv_match_coded demo_extern (AdFind_Type demo_extern coded_frame)
   \<and> AdFind_Type demo_extern coded_frame = Some coded_frame
   \<and> fst (respond demo_extern (world demo_state) (lcz_lwm2m_gw_obj_lookup_ble addr_A)) = 0
   \<and> fst (respond demo_extern (world demo_state) (lcz_lwm2m_gw_obj_lookup_ble addr_B)) = - 2
   \<and> productId (demo_rsp coded_frame) = 1
   \<and> product_id (table demo_state ! 0) = 65535
   \<and> (\<exists>s'. rsp_handler demo_config demo_extern addr_A (Some (demo_rsp coded_frame)) demo_state
                = Some (0, s')
            \<and> calls s' = [lcz_lwm2m_gw_obj_lookup_ble addr_A]
            \<and> product_id (table s' ! 0) = 1)
   \<and> (\<exists>s'. rsp_handler demo_config demo_extern addr_B (Some (demo_rsp coded_frame)) demo_state
                = Some (- 2, s')
            \<and> table s' = table demo_state)
   \<and> \<not> ad_discard demo_config (demo_event coded_frame)
   \<and> \<not> table_full demo_state
   \<and> (\<exists>s'. ad_handler demo_config demo_extern addr_B 0 0 coded_frame demo_state = Some s'
            \<and> length (filter is_lookup (calls s')) = 2
            \<and> length (filter is_create (calls s')) = 1)
   \<and> (\<exists>s'. ad_handler demo_config demo_extern addr_A 0 0 coded_frame demo_state = Some s'
            \<and> length (filter is_lookup (calls s')) = 2
            \<and> length (filter is_create (calls s')) = 0)"
proof -
  have len: "length (table demo_state) = MAX_INSTANCES demo_config"
    by (simp add: demo_state_def demo_config_def)
  have m: "\<not> lcz_sensor_adv_match_1m demo_extern (AdFind_Type demo_extern coded_frame)"
      "lcz_sensor_adv_match_coded demo_extern (AdFind_Type demo_extern coded_frame)"
      "AdFind_Type demo_extern coded_frame = Some coded_frame"
    by (simp_all add: demo_extern_def coded_frame_def)
  have cd: "as_LczSensorAdCoded demo_extern coded_frame
              = (demo_event coded_frame, demo_rsp coded_frame)"
    by (simp add: demo_extern_def)
  have dir: "fst (respond demo_extern (world demo_state) (lcz_lwm2m_gw_obj_lookup_ble addr_A)) = 0"
      "fst (respond demo_extern (world demo_state) (lcz_lwm2m_gw_obj_lookup_ble addr_B)) = - 2"
    by (simp_all add: demo_defs)
  have v: "valid_index demo_config 0" "\<not> valid_index demo_config (- 2)"
      "MAX_INSTANCES demo_config = 2"
    by (simp_all add: valid_index_def demo_config_def)
  have vals: "productId (demo_rsp coded_frame) = 1" "product_id (table demo_state ! 0) = 65535"
      "calls demo_state = []" "\<not> table_full demo_state"
    by (simp_all add: coded_frame_def demo_state_def)
  have gate: "\<not> ad_discard demo_config (demo_event coded_frame)"
    by (simp add: ad_discard_def coded_frame_def demo_config_def)
  note w1 = scan_response_never_creates [OF len, where X = demo_extern and addr = addr_A
      and q = "demo_rsp coded_frame" and ad = coded_frame and payload = coded_frame
      and e = "demo_event coded_frame" and rssi = 0 and adv_type = 0]
  note w2 = scan_response_never_creates [OF len, where X = demo_extern and addr = addr_B
      and q = "demo_rsp coded_frame" and ad = coded_frame and payload = coded_frame
      and e = "demo_event coded_frame" and rssi = 0 and adv_type = 0]
  have a: "\<exists>s'. rsp_handler demo_config demo_extern addr_A (Some (demo_rsp coded_frame)) demo_state
                = Some (0, s')
            \<and> calls s' = [lcz_lwm2m_gw_obj_lookup_ble addr_A]
            \<and> product_id (table s' ! 0) = 1"
    using w1 dir v vals by auto
  have b: "\<exists>s'. rsp_handler demo_config demo_extern addr_B (Some (demo_rsp coded_frame)) demo_state
                = Some (- 2, s')
            \<and> table s' = table demo_state"
    using w2 dir v by auto
  have c: "\<exists>s'. ad_handler demo_config demo_extern addr_B 0 0 coded_frame demo_state = Some s'
            \<and> length (filter is_lookup (calls s')) = 2
            \<and> length (filter is_create (calls s')) = 1"
    using w2 m cd dir v vals gate by auto
  have d: "\<exists>s'. ad_handler demo_config demo_extern addr_A 0 0 coded_frame demo_state = Some s'
            \<and> length (filter is_lookup (calls s')) = 2
            \<and> length (filter is_create (calls s')) = 0"
    using w1 m cd dir v vals gate by auto
  from len m dir vals a b gate c d show ?thesis by blast
qed

text \<open>
  The claim as stated asks for exactly one capacity-consuming lookup or creation, that
  is one resolution with creation allowed, for every coded frame. A coded frame whose
  embedded event belongs to a disabled category has none: \<open>ad_filter\<close> returns
  \<open>-EPERM\<close> at the type gate with the state it was given, so the event path makes no
  directory call, and the only lookup of the run is the scan response's, made with
  creation disallowed. The device stays unknown and the table is unchanged.
\<close>

theorem coded_frame_counterexample:
  "\<not> lcz_sensor_adv_match_1m demo_extern (AdFind_Type demo_extern coded_pressure_frame)
   \<and> lcz_sensor_adv_match_coded demo_extern (AdFind_Type demo_extern coded_pressure_frame)
   \<and> as_LczSensorAdCoded demo_extern coded_pressure_frame
       = (demo_event coded_pressure_frame, demo_rsp coded_pressure_frame)
   \<and> ad_discard demo_config (demo_event coded_pressure_frame)
   \<and> ad_filter demo_config demo_extern addr_B (Some (demo_event coded_pressure_frame)) 0
        (INCR_STAT demo_config coded_ads (INCR_STAT demo_config ads demo_state))
       = Some (- 1, INCR_STAT demo_config coded_ads (INCR_STAT demo_config ads demo_state))
   \<and> (\<exists>s'. ad_handler demo_config demo_extern addr_B 0 0 coded_pressure_frame demo_state = Some s'
         \<and> calls s' = [lcz_lwm2m_gw_obj_lookup_ble addr_B]
         \<and> length (filter is_create (calls s')) = 0
         \<and> world s' = world demo_state
         \<and> table s' = table demo_state)"
proof -
  have m: "\<not> lcz_sensor_adv_match_1m demo_extern (AdFind_Type demo_extern coded_pressure_frame)"
      "lcz_sensor_adv_match_coded demo_extern (AdFind_Type demo_extern coded_pressure_frame)"
      "as_LczSensorAdCoded demo_extern coded_pressure_frame
         = (demo_event coded_pressure_frame, demo_rsp coded_pressure_frame)"
    by (simp_all add: demo_extern_def coded_pressure_frame_def)
  have gate: "ad_discard demo_config (demo_event coded_pressure_frame)"
    by (simp add: ad_discard_def coded_pressure_frame_def demo_config_def)
  then have f: "ad_filter demo_config demo_extern addr_B (Some (demo_event coded_pressure_frame)) 0
        (INCR_STAT demo_config coded_ads (INCR_STAT demo_config ads demo_state))
       = Some (- 1, INCR_STAT demo_config coded_ads (INCR_STAT demo_config ads demo_state))"
    by (simp add: ad_filter_def EPERM_def)
  have run: "\<exists>s'. ad_handler demo_config demo_extern addr_B 0 0 coded_pressure_frame demo_state = Some s'
         \<and> calls s' = [lcz_lwm2m_gw_obj_lookup_ble addr_B]
         \<and> length (filter is_create (calls s')) = 0
         \<and> world s' = world demo_state
         \<and> table s' = table demo_state"
    by (simp add: run_defs demo_defs coded_pressure_frame_def)
  from m gate f run show ?thesis by blast
qed

section \<open>Index bounds (C6)\<close>



section \<open>Single-channel temperature (C7)\<close>

text \<open>
  C7. For a single-channel temperature event, \<open>ad_process\<close> makes one call of the
  temperature sink, at sub-channel 0, with the 16-bit payload read as a signed
  integer and divided by 100; the payload that encodes \<open>-123\<close> gives \<open>-1.23\<close>.
\<close>

theorem temperature_scaled_by_100:
  assumes "uint (recordType p) = SENSOR_EVENT_TEMPERATURE C"
    and "CONFIG_LCZ_LWM2M_TEMPERATURE C"
  shows "\<exists>s'. ad_process C X idx p rssi s = Some s'
          \<and> calls s' = calls s @
              [lcz_lwm2m_managed_temperature_set idx 0 (real_of_int (sint (u16 (data p))) / 100)]
          \<and> (u16 (data p) = word_of_int (- 123) \<longrightarrow>
               calls s' = calls s @ [lcz_lwm2m_managed_temperature_set idx 0 (- 1.23)])"
  using assms by (simp add: ad_process_def Let_def split_beta)

theorem temperature_scaled_by_100_witness:
  "uint (recordType cold_event) = SENSOR_EVENT_TEMPERATURE demo_config
   \<and> CONFIG_LCZ_LWM2M_TEMPERATURE demo_config
   \<and> sint (u16 (data cold_event)) = - 123
   \<and> (\<exists>s'. ad_process demo_config demo_extern 0 cold_event 0 demo_state = Some s'
          \<and> calls s' = [lcz_lwm2m_managed_temperature_set 0 0 (- 1.23)])"
proof -
  have t: "uint (recordType cold_event) = SENSOR_EVENT_TEMPERATURE demo_config"
    by (simp add: cold_event_def demo_config_def)
  have on: "CONFIG_LCZ_LWM2M_TEMPERATURE demo_config"
    by (simp add: demo_config_def)
  have v: "sint (u16 (data cold_event)) = - 123"
    by (simp add: cold_event_def)
  have e: "calls demo_state = []"
    by (simp add: demo_state_def)
  from temperature_scaled_by_100 [OF t on, where X = demo_extern and idx = 0 and rssi = 0
      and s = demo_state]
  show ?thesis using t on v e by auto
qed

section \<open>The name correlator (C8)\<close>

text \<open>
  C8. \<open>name_handler\<close> returns the state unchanged when the index is invalid or the
  frame has no name field. When the directory reports the instance created, it has
  made the query and nothing else: no set-endpoint-name call, and table, flag and
  counters as before. Otherwise it makes exactly one set-endpoint-name call, with the
  name of the frame. If the directory reports an instance created after every
  successful name set, then running the correlator on a second frame with another
  name, after a first run whose name set succeeded, makes only the query: the call
  log holds the first name alone.
\<close>

theorem name_written_once:
  "(\<not> valid_index C idx \<longrightarrow> name_handler C X idx ad s = s)
   \<and> (AdFind_Name X ad = None \<longrightarrow> name_handler C X idx ad s = s)
   \<and> (valid_index C idx \<and> AdFind_Name X ad = Some name
        \<and> fst (respond X (world s) (lcz_lwm2m_gw_obj_inst_created idx)) \<noteq> 0
      \<longrightarrow> calls (name_handler C X idx ad s) = calls s @ [lcz_lwm2m_gw_obj_inst_created idx]
        \<and> table (name_handler C X idx ad s) = table s
        \<and> table_full (name_handler C X idx ad s) = table_full s
        \<and> stats (name_handler C X idx ad s) = stats s)
   \<and> (valid_index C idx \<and> AdFind_Name X ad = Some name
        \<and> fst (respond X (world s) (lcz_lwm2m_gw_obj_inst_created idx)) = 0
      \<longrightarrow> calls (name_handler C X idx ad s) =
            calls s @ [lcz_lwm2m_gw_obj_inst_created idx,
                       lcz_lwm2m_gw_obj_set_endpoint_name idx name])
   \<and> (valid_index C idx \<and> AdFind_Name X ad = Some name \<and> AdFind_Name X ad' = Some name'
        \<and> fst (respond X (world s) (lcz_lwm2m_gw_obj_inst_created idx)) = 0
        \<and> fst (respond X (snd (respond X (world s) (lcz_lwm2m_gw_obj_inst_created idx)))
                  (lcz_lwm2m_gw_obj_set_endpoint_name idx name)) = 0
        \<and> (\<forall>w n. fst (respond X w (lcz_lwm2m_gw_obj_set_endpoint_name idx n)) = 0
               \<longrightarrow> fst (respond X (snd (respond X w (lcz_lwm2m_gw_obj_set_endpoint_name idx n)))
                         (lcz_lwm2m_gw_obj_inst_created idx)) \<noteq> 0)
      \<longrightarrow> calls (name_handler C X idx ad' (name_handler C X idx ad s)) =
            calls s @ [lcz_lwm2m_gw_obj_inst_created idx,
                       lcz_lwm2m_gw_obj_set_endpoint_name idx name,
                       lcz_lwm2m_gw_obj_inst_created idx])"
proof -
  have a: "\<not> valid_index C idx \<longrightarrow> name_handler C X idx ad s = s"
    by (simp add: name_handler_def)
  have b: "AdFind_Name X ad = None \<longrightarrow> name_handler C X idx ad s = s"
    by (simp add: name_handler_def)
  have c: "valid_index C idx \<and> AdFind_Name X ad = Some name
        \<and> fst (respond X (world s) (lcz_lwm2m_gw_obj_inst_created idx)) \<noteq> 0
      \<longrightarrow> calls (name_handler C X idx ad s) = calls s @ [lcz_lwm2m_gw_obj_inst_created idx]
        \<and> table (name_handler C X idx ad s) = table s
        \<and> table_full (name_handler C X idx ad s) = table_full s
        \<and> stats (name_handler C X idx ad s) = stats s"
    by (simp add: name_handler_def Let_def split_beta)
  have d: "valid_index C idx \<and> AdFind_Name X ad = Some name
        \<and> fst (respond X (world s) (lcz_lwm2m_gw_obj_inst_created idx)) = 0
      \<longrightarrow> calls (name_handler C X idx ad s) =
            calls s @ [lcz_lwm2m_gw_obj_inst_created idx,
                       lcz_lwm2m_gw_obj_set_endpoint_name idx name]"
    by (simp add: name_handler_def Let_def split_beta)
  have e: "valid_index C idx \<and> AdFind_Name X ad = Some name \<and> AdFind_Name X ad' = Some name'
        \<and> fst (respond X (world s) (lcz_lwm2m_gw_obj_inst_created idx)) = 0
        \<and> fst (respond X (snd (respond X (world s) (lcz_lwm2m_gw_obj_inst_created idx)))
                  (lcz_lwm2m_gw_obj_set_endpoint_name idx name)) = 0
        \<and> (\<forall>w n. fst (respond X w (lcz_lwm2m_gw_obj_set_endpoint_name idx n)) = 0
               \<longrightarrow> fst (respond X (snd (respond X w (lcz_lwm2m_gw_obj_set_endpoint_name idx n)))
                         (lcz_lwm2m_gw_obj_inst_created idx)) \<noteq> 0)
      \<longrightarrow> calls (name_handler C X idx ad' (name_handler C X idx ad s)) =
            calls s @ [lcz_lwm2m_gw_obj_inst_created idx,
                       lcz_lwm2m_gw_obj_set_endpoint_name idx name,
                       lcz_lwm2m_gw_obj_inst_created idx]"
  proof (intro impI, elim conjE)
    assume v: "valid_index C idx"
      and n1: "AdFind_Name X ad = Some name"
      and n2: "AdFind_Name X ad' = Some name'"
      and q: "fst (respond X (world s) (lcz_lwm2m_gw_obj_inst_created idx)) = 0"
      and ok: "fst (respond X (snd (respond X (world s) (lcz_lwm2m_gw_obj_inst_created idx)))
                  (lcz_lwm2m_gw_obj_set_endpoint_name idx name)) = 0"
      and dir: "\<forall>w n. fst (respond X w (lcz_lwm2m_gw_obj_set_endpoint_name idx n)) = 0
               \<longrightarrow> fst (respond X (snd (respond X w (lcz_lwm2m_gw_obj_set_endpoint_name idx n)))
                         (lcz_lwm2m_gw_obj_inst_created idx)) \<noteq> 0"
    let ?w1 = "snd (respond X (world s) (lcz_lwm2m_gw_obj_inst_created idx))"
    let ?s1 = "name_handler C X idx ad s"
    have w: "world ?s1 = snd (respond X ?w1 (lcz_lwm2m_gw_obj_set_endpoint_name idx name))"
      using v n1 q ok by (simp add: name_handler_def Let_def split_beta INCR_STAT_def)
    have c1: "calls ?s1 = calls s @ [lcz_lwm2m_gw_obj_inst_created idx,
                       lcz_lwm2m_gw_obj_set_endpoint_name idx name]"
      using v n1 q by (simp add: name_handler_def Let_def split_beta)
    have created: "fst (respond X (world ?s1) (lcz_lwm2m_gw_obj_inst_created idx)) \<noteq> 0"
      unfolding w using dir ok by blast
    have "calls (name_handler C X idx ad' ?s1) = calls ?s1 @ [lcz_lwm2m_gw_obj_inst_created idx]"
      using v n2 created by (simp add: name_handler_def [of C X idx ad'] Let_def split_beta)
    then show "calls (name_handler C X idx ad' ?s1) =
            calls s @ [lcz_lwm2m_gw_obj_inst_created idx,
                       lcz_lwm2m_gw_obj_set_endpoint_name idx name,
                       lcz_lwm2m_gw_obj_inst_created idx]"
      by (simp add: c1)
  qed
  from a b c d e show ?thesis by blast
qed

theorem name_written_once_witness:
  "valid_index demo_config 0
   \<and> AdFind_Name demo_extern [3, 0, 0, 0, 0, 65, 66] = Some [65, 66]
   \<and> AdFind_Name demo_extern [3, 0, 0, 0, 0, 67] = Some [67]
   \<and> AdFind_Name demo_extern [3, 0, 0, 0, 0] = None
   \<and> fst (respond demo_extern (world demo_state) (lcz_lwm2m_gw_obj_inst_created 0)) = 0
   \<and> name_handler demo_config demo_extern 5 [3, 0, 0, 0, 0, 65, 66] demo_state = demo_state
   \<and> name_handler demo_config demo_extern 0 [3, 0, 0, 0, 0] demo_state = demo_state
   \<and> calls (name_handler demo_config demo_extern 0 [3, 0, 0, 0, 0, 65, 66] demo_state)
        = [lcz_lwm2m_gw_obj_inst_created 0, lcz_lwm2m_gw_obj_set_endpoint_name 0 [65, 66]]
   \<and> calls (name_handler demo_config demo_extern 0 [3, 0, 0, 0, 0, 67]
              (name_handler demo_config demo_extern 0 [3, 0, 0, 0, 0, 65, 66] demo_state))
        = [lcz_lwm2m_gw_obj_inst_created 0, lcz_lwm2m_gw_obj_set_endpoint_name 0 [65, 66],
           lcz_lwm2m_gw_obj_inst_created 0]"
proof -
  have v: "valid_index demo_config 0" "\<not> valid_index demo_config 5"
    by (simp_all add: valid_index_def demo_config_def)
  have n: "AdFind_Name demo_extern [3, 0, 0, 0, 0, 65, 66] = Some [65, 66]"
      "AdFind_Name demo_extern [3, 0, 0, 0, 0, 67] = Some [67]"
      "AdFind_Name demo_extern [3, 0, 0, 0, 0] = None"
    by (simp_all add: demo_extern_def)
  have q: "fst (respond demo_extern (world demo_state) (lcz_lwm2m_gw_obj_inst_created 0)) = 0"
      "fst (respond demo_extern
             (snd (respond demo_extern (world demo_state) (lcz_lwm2m_gw_obj_inst_created 0)))
             (lcz_lwm2m_gw_obj_set_endpoint_name 0 [65, 66])) = 0"
    by (simp_all add: demo_extern_def demo_state_def)
  have dir: "\<forall>w n. fst (respond demo_extern w (lcz_lwm2m_gw_obj_set_endpoint_name 0 n)) = 0
               \<longrightarrow> fst (respond demo_extern
                          (snd (respond demo_extern w (lcz_lwm2m_gw_obj_set_endpoint_name 0 n)))
                          (lcz_lwm2m_gw_obj_inst_created 0)) \<noteq> 0"
    by (simp add: demo_extern_def)
  have e: "calls demo_state = []"
    by (simp add: demo_state_def)
  note w1 = name_written_once [where C = demo_config and X = demo_extern and idx = 5
      and ad = "[3, 0, 0, 0, 0, 65, 66]" and s = demo_state and name = "[65, 66]"
      and ad' = "[3, 0, 0, 0, 0, 67]" and name' = "[67]"]
  note w2 = name_written_once [where C = demo_config and X = demo_extern and idx = 0
      and ad = "[3, 0, 0, 0, 0]" and s = demo_state and name = "[65, 66]"
      and ad' = "[3, 0, 0, 0, 0, 67]" and name' = "[67]"]
  note w3 = name_written_once [where C = demo_config and X = demo_extern and idx = 0
      and ad = "[3, 0, 0, 0, 0, 65, 66]" and s = demo_state and name = "[65, 66]"
      and ad' = "[3, 0, 0, 0, 0, 67]" and name' = "[67]"]
  have a: "name_handler demo_config demo_extern 5 [3, 0, 0, 0, 0, 65, 66] demo_state = demo_state"
    using w1 v by blast
  have b: "name_handler demo_config demo_extern 0 [3, 0, 0, 0, 0] demo_state = demo_state"
    using w2 n by blast
  have c: "calls (name_handler demo_config demo_extern 0 [3, 0, 0, 0, 0, 65, 66] demo_state)
        = [lcz_lwm2m_gw_obj_inst_created 0, lcz_lwm2m_gw_obj_set_endpoint_name 0 [65, 66]]"
    using w3 v n q e by simp
  have d: "calls (name_handler demo_config demo_extern 0 [3, 0, 0, 0, 0, 67]
              (name_handler demo_config demo_extern 0 [3, 0, 0, 0, 0, 65, 66] demo_state))
        = [lcz_lwm2m_gw_obj_inst_created 0, lcz_lwm2m_gw_obj_set_endpoint_name 0 [65, 66],
           lcz_lwm2m_gw_obj_inst_created 0]"
    using w3 v n q dir e by simp
  from v n q a b c d show ?thesis by blast
qed

section \<open>Removal notifications (C9)\<close>

text \<open>
  C9. \<open>gw_obj_removed\<close> changes nothing for an invalid index. For a valid index \<open>idx\<close>
  it clears \<open>table_full\<close> and sets \<open>product_id\<close> of slot \<open>idx\<close> to
  \<open>INVALID_PRODUCT_ID\<close>, and nothing else; running it twice gives the result of
  running it once. After a removal for \<open>idx\<close>, through any run of event filtering and
  name correlation, slot \<open>idx\<close> holds the invalid product id, and a scan-response
  correlation that resolves to \<open>idx\<close> stores the product id of that response: the
  previous device's product id is never seen again.
\<close>

theorem removal_resets_slot:
  assumes len: "length (table s) = MAX_INSTANCES C"
  shows "(\<not> valid_index C idx \<longrightarrow> gw_obj_removed C idx s = Some (0, s))
       \<and> (valid_index C idx \<longrightarrow>
            gw_obj_removed C idx s =
              Some (0, s\<lparr>table_full := False,
                         table := (table s)[nat idx := (table s ! nat idx)
                                    \<lparr>product_id := INVALID_PRODUCT_ID C\<rparr>]\<rparr>))
       \<and> (gw_obj_removed C idx s \<bind> (\<lambda>(r, s1). gw_obj_removed C idx s1))
            = gw_obj_removed C idx s
       \<and> (\<forall>s1 s2. valid_index C idx \<and> gw_obj_removed C idx s = Some (0, s1)
                  \<and> events_only C X s1 s2
            \<longrightarrow> product_id (table s2 ! nat idx) = INVALID_PRODUCT_ID C
              \<and> (\<forall>addr p s3. rsp_handler C X addr (Some p) s2 = Some (idx, s3)
                    \<longrightarrow> product_id (table s3 ! nat idx) = uint (productId p)))"
proof -
  have a: "\<not> valid_index C idx \<longrightarrow> gw_obj_removed C idx s = Some (0, s)"
    by (simp add: gw_obj_removed_invalid)
  have b: "valid_index C idx \<longrightarrow>
            gw_obj_removed C idx s =
              Some (0, s\<lparr>table_full := False,
                         table := (table s)[nat idx := (table s ! nat idx)
                                    \<lparr>product_id := INVALID_PRODUCT_ID C\<rparr>]\<rparr>)"
    using len by (simp add: gw_obj_removed_valid)
  have c: "(gw_obj_removed C idx s \<bind> (\<lambda>(r, s1). gw_obj_removed C idx s1))
            = gw_obj_removed C idx s"
  proof (cases "valid_index C idx")
    case True
    have "nat idx < length (table s)"
      using True len by (simp add: valid_index_def nat_less_iff)
    then show ?thesis
      using True len by (simp add: gw_obj_removed_valid)
  next
    case False
    then show ?thesis by (simp add: gw_obj_removed_invalid)
  qed
  have d: "\<forall>s1 s2. valid_index C idx \<and> gw_obj_removed C idx s = Some (0, s1)
                  \<and> events_only C X s1 s2
            \<longrightarrow> product_id (table s2 ! nat idx) = INVALID_PRODUCT_ID C
              \<and> (\<forall>addr p s3. rsp_handler C X addr (Some p) s2 = Some (idx, s3)
                    \<longrightarrow> product_id (table s3 ! nat idx) = uint (productId p))"
  proof (intro allI impI, elim conjE)
    fix s1 s2
    assume v: "valid_index C idx"
      and rm: "gw_obj_removed C idx s = Some (0, s1)"
      and ev: "events_only C X s1 s2"
    have inb: "0 \<le> idx" "nat idx < length (table s)"
      using v len by (simp_all add: valid_index_def nat_less_iff)
    have s1: "s1 = s\<lparr>table_full := False,
                     table := (table s)[nat idx := (table s ! nat idx)
                                \<lparr>product_id := INVALID_PRODUCT_ID C\<rparr>]\<rparr>"
      using rm v len by (simp add: gw_obj_removed_valid)
    have l1: "length (table s1) = MAX_INSTANCES C"
      using len by (simp add: s1)
    have p1: "product_id (table s1 ! nat idx) = INVALID_PRODUCT_ID C"
      using inb by (simp add: s1)
    from events_only_invariant [OF ev l1]
    have l2: "length (table s2) = MAX_INSTANCES C"
      and m2: "map product_id (table s2) = map product_id (table s1)"
      by simp_all
    have inb2: "nat idx < length (table s2)" "nat idx < length (table s1)"
      using inb len l1 l2 by simp_all
    have "product_id (table s2 ! nat idx) = map product_id (table s2) ! nat idx"
      using inb2 by simp
    also have "\<dots> = product_id (table s1 ! nat idx)"
      using inb2 by (simp add: m2)
    finally have p2: "product_id (table s2 ! nat idx) = INVALID_PRODUCT_ID C"
      using p1 by simp
    have p3: "\<forall>addr p s3. rsp_handler C X addr (Some p) s2 = Some (idx, s3)
                    \<longrightarrow> product_id (table s3 ! nat idx) = uint (productId p)"
    proof (intro allI impI)
      fix addr p s3
      assume run: "rsp_handler C X addr (Some p) s2 = Some (idx, s3)"
      from rsp_handler_Some [OF l2, of X addr p] run inb(1)
      have "table s3 = (table s2)[nat idx := (table s2 ! nat idx)\<lparr>product_id := uint (productId p)\<rparr>]"
        by auto
      then show "product_id (table s3 ! nat idx) = uint (productId p)"
        using inb2 by simp
    qed
    from p2 p3
    show "product_id (table s2 ! nat idx) = INVALID_PRODUCT_ID C
              \<and> (\<forall>addr p s3. rsp_handler C X addr (Some p) s2 = Some (idx, s3)
                    \<longrightarrow> product_id (table s3 ! nat idx) = uint (productId p))"
      by blast
  qed
  from a b c d show ?thesis by blast
qed

theorem removal_resets_slot_witness:
  "length (table freed_state) = MAX_INSTANCES demo_config
   \<and> valid_index demo_config 0
   \<and> product_id (table freed_state ! 0) = BT6XX_PRODUCT_ID demo_config
   \<and> table_full freed_state
   \<and> (\<exists>s1 s2 s3. gw_obj_removed demo_config 0 freed_state = Some (0, s1)
         \<and> \<not> table_full s1
         \<and> gw_obj_removed demo_config 0 s1 = Some (0, s1)
         \<and> ad_filter demo_config demo_extern addr_B (Some cold_event) 0 s1 = Some (0, s2)
         \<and> product_id (table s2 ! 0) = INVALID_PRODUCT_ID demo_config
         \<and> rsp_handler demo_config demo_extern addr_B (Some new_rsp) s2 = Some (0, s3)
         \<and> product_id (table s3 ! 0) = BT510_PRODUCT_ID demo_config)"
proof -
  have len: "length (table freed_state) = MAX_INSTANCES demo_config"
    by (simp add: freed_state_def demo_config_def)
  have v: "valid_index demo_config 0"
    by (simp add: valid_index_def demo_config_def)
  have old: "product_id (table freed_state ! 0) = BT6XX_PRODUCT_ID demo_config"
      "table_full freed_state"
    by (simp_all add: freed_state_def demo_config_def)
  have "\<exists>s1 s2 s3. gw_obj_removed demo_config 0 freed_state = Some (0, s1)
         \<and> \<not> table_full s1
         \<and> ad_filter demo_config demo_extern addr_B (Some cold_event) 0 s1 = Some (0, s2)
         \<and> rsp_handler demo_config demo_extern addr_B (Some new_rsp) s2 = Some (0, s3)"
    by (simp add: run_defs demo_defs freed_state_def cold_event_def new_rsp_def)
  then obtain s1 s2 s3 where rm: "gw_obj_removed demo_config 0 freed_state = Some (0, s1)"
    and nf: "\<not> table_full s1"
    and f: "ad_filter demo_config demo_extern addr_B (Some cold_event) 0 s1 = Some (0, s2)"
    and g: "rsp_handler demo_config demo_extern addr_B (Some new_rsp) s2 = Some (0, s3)"
    by blast
  have ev: "events_only demo_config demo_extern s1 s2"
    using events_none f by (rule events_filter)
  from removal_resets_slot [OF len, of 0 demo_extern] v rm ev g
  have "product_id (table s2 ! nat 0) = INVALID_PRODUCT_ID demo_config
      \<and> product_id (table s3 ! nat 0) = uint (productId new_rsp)"
    by blast
  then have p: "product_id (table s2 ! 0) = INVALID_PRODUCT_ID demo_config"
      "product_id (table s3 ! 0) = BT510_PRODUCT_ID demo_config"
    by (simp_all add: new_rsp_def demo_config_def)
  from removal_resets_slot [OF len, of 0 demo_extern] rm
  have twice: "gw_obj_removed demo_config 0 s1 = Some (0, s1)"
    by simp
  from len v old rm nf twice f g p show ?thesis by blast
qed

section \<open>Null payloads (C10)\<close>

text \<open>
  C10. Calling \<open>ad_filter\<close> with a null event payload, or \<open>rsp_handler\<close> with a null
  scan-response payload, returns \<open>-EPERM\<close> and leaves the whole state as it was: no
  directory call is logged, and the table and the capacity-full flag are unchanged.
\<close>

theorem null_payload_rejected:
  "ad_filter C X addr None rssi s = Some (- EPERM, s)
   \<and> rsp_handler C X addr None s = Some (- EPERM, s)"
  by (simp add: ad_filter_def rsp_handler_def)

theorem null_payload_rejected_witness:
  "ad_filter demo_config demo_extern addr_B None 0 demo_state = Some (- 1, demo_state)
   \<and> rsp_handler demo_config demo_extern addr_B None demo_state = Some (- 1, demo_state)"
  using null_payload_rejected [of demo_config demo_extern addr_B 0 demo_state]
  by (simp add: EPERM_def)

end
